theory Spec2Isabelle
  imports Complex_Main
begin

section \<open>Text\<close>

text \<open>
  Python strings are modelled as HOL strings: a \<^typ>\<open>char\<close> is a code point below 256, and the
  text that clients submit is taken to consist of such code points. On them,
  \<^item> \<^verbatim>\<open>str.isspace\<close>, which \<^verbatim>\<open>str.strip\<close> and the regex class \<^verbatim>\<open>\s\<close> share, holds for
    the code points 9 to 13, 28 to 32, 133 and 160;
  \<^item> the regex class \<^verbatim>\<open>\d\<close> holds for the decimal digits 0-9, and \<^verbatim>\<open>str.isdigit\<close> for
    these and for the superscript digits 178, 179 and 185;
  \<^item> \<^verbatim>\<open>str.upper\<close> maps a-z to A-Z, the letters 224 to 254 other than the division sign
    247 to the letter 32 below, and the sharp s 223 to the two letters \<open>SS\<close>.

  The capitals of the micro sign 181 and of the letter 255 lie above 255. \<^verbatim>\<open>upper_char\<close> keeps
  these two letters. Nothing that the validator computes from the upper-cased text tells
  such a letter from its capital: neither is whitespace, neither is a digit or in A-Z, so
  the pattern fails on both and the text is not returned.
\<close>

definition isspace :: "char \<Rightarrow> bool" where
  "isspace c =
     (let n = (of_char c :: nat)
      in (9 \<le> n \<and> n \<le> 13) \<or> (28 \<le> n \<and> n \<le> 32) \<or> n = 133 \<or> n = 160)"

definition isdecimal :: "char \<Rightarrow> bool" where
  "isdecimal c = (let n = (of_char c :: nat) in 48 \<le> n \<and> n \<le> 57)"

definition isdigit :: "char \<Rightarrow> bool" where
  "isdigit c =
     (let n = (of_char c :: nat) in (48 \<le> n \<and> n \<le> 57) \<or> n = 178 \<or> n = 179 \<or> n = 185)"

definition upper_char :: "char \<Rightarrow> string" where
  "upper_char c =
     (let n = (of_char c :: nat)
      in if (97 \<le> n \<and> n \<le> 122) \<or> (224 \<le> n \<and> n \<le> 254 \<and> n \<noteq> 247) then [char_of (n - 32)]
         else if n = 223 then ''SS''
         else [c])"

definition upper :: "string \<Rightarrow> string" where
  "upper s = concat (map upper_char s)"

text \<open>\<^verbatim>\<open>s.strip()\<close>: whitespace is removed at both ends only.\<close>

definition strip :: "string \<Rightarrow> string" where
  "strip s = rev (dropWhile isspace (rev (dropWhile isspace s)))"

text \<open>\<^verbatim>\<open>re.sub(r'\s+', '', s)\<close>: every run of whitespace is deleted.\<close>

definition re_sub_spaces :: "string \<Rightarrow> string" where
  "re_sub_spaces s = filter (\<lambda>c. \<not> isspace c) s"

text \<open>\<^verbatim>\<open>s.replace(old, new)\<close> where \<^verbatim>\<open>old\<close> is a single character.\<close>

definition replace :: "char \<Rightarrow> string \<Rightarrow> string \<Rightarrow> string" where
  "replace old new s = concat (map (\<lambda>c. if c = old then new else [c]) s)"

text \<open>\<^verbatim>\<open>sep.join(xs)\<close>.\<close>

fun join :: "string \<Rightarrow> string list \<Rightarrow> string" where
  "join sep [] = []"
| "join sep [x] = x"
| "join sep (x # y # ys) = x @ sep @ join sep (y # ys)"

text \<open>The decimal numeral that an f-string prints for a non-negative integer.\<close>

definition digit_char :: "nat \<Rightarrow> char" where
  "digit_char d = char_of (48 + d)"

fun str_nat :: "nat \<Rightarrow> string" where
  "str_nat n = (if n < 10 then [digit_char n] else str_nat (n div 10) @ [digit_char (n mod 10)])"

declare str_nat.simps [simp del]

section \<open>The regular expression of the validator\<close>

text \<open>
  The pattern of \<^verbatim>\<open>validate_mgrs_format\<close> is a sequence of character classes, each with a
  repetition range, between \<^verbatim>\<open>^\<close> and \<^verbatim>\<open>$\<close>. \<^verbatim>\<open>re.match\<close> tries every count in the
  range of each item (backtracking), and \<^verbatim>\<open>$\<close> matches at the end of the string and before a
  final newline.
\<close>

datatype cclass = Digit | Range char char

fun in_class :: "cclass \<Rightarrow> char \<Rightarrow> bool" where
  "in_class Digit c = isdecimal c"
| "in_class (Range lo hi) c = ((of_char lo :: nat) \<le> of_char c \<and> (of_char c :: nat) \<le> of_char hi)"

type_synonym rx_item = "cclass \<times> nat \<times> nat"

fun re_match :: "rx_item list \<Rightarrow> string \<Rightarrow> bool" where
  "re_match [] s = (s = [] \<or> s = [CHR 0x0A])"
| "re_match ((cl, lo, hi) # items) s =
     list_ex (\<lambda>k. k \<le> length s \<and> list_all (in_class cl) (take k s) \<and> re_match items (drop k s))
       [lo ..< Suc hi]"

text \<open>\<^verbatim>\<open>r'^\d{1,2}[C-X][A-Z]{2}\d{2,10}$'\<close>\<close>

definition pattern :: "rx_item list" where
  "pattern = [(Digit, 1, 2), (Range CHR ''C'' CHR ''X'', 1, 1), (Range CHR ''A'' CHR ''Z'', 2, 2),
              (Digit, 2, 10)]"

section \<open>validate_mgrs_format\<close>

text \<open>
  The loop that looks for the first digit at an index of at least 3; \<^verbatim>\<open>coord_start\<close> stays 0
  when the loop ends without a \<^verbatim>\<open>break\<close>.
\<close>

fun coord_start_loop :: "nat \<Rightarrow> string \<Rightarrow> nat" where
  "coord_start_loop i [] = 0"
| "coord_start_loop i (c # cs) = (if i \<ge> 3 \<and> isdigit c then i else coord_start_loop (Suc i) cs)"

definition valid_lengths :: "nat list" where
  "valid_lengths = [2, 4, 6, 8, 10]"

definition validate_mgrs_format :: "string \<Rightarrow> bool \<times> string" where
  "validate_mgrs_format mgrs_code =
     (if mgrs_code = [] then (False, ''MGRS code is required'')
      else
        let clean_mgrs = re_sub_spaces (upper mgrs_code) in
        if \<not> re_match pattern clean_mgrs
        then (False, ''Invalid MGRS format. Expected format: 23KKP4014597230'')
        else
          let coord_start = coord_start_loop 0 clean_mgrs;
              coord_part = drop coord_start clean_mgrs in
          if length coord_part mod 2 \<noteq> 0
          then (False, ''MGRS coordinates must have even number of digits'')
          else if length coord_part \<notin> set valid_lengths
          then (False, ''MGRS coordinates must have 2, 4, 6, 8, or 10 digits. Found ''
                         @ str_nat (length coord_part) @ '' digits'')
          else (True, clean_mgrs))"

section \<open>Request bodies\<close>

text \<open>
  The body of a conversion request is a JSON value, as \<^verbatim>\<open>request.get_json\<close> returns it:
  \<^verbatim>\<open>None\<close>, a boolean, a number, a string, a list, or a dictionary, here the list of its
  members with one member for each key. Numbers are real numbers.
\<close>

datatype json =
    JNull
  | JBool bool
  | JNum real
  | JStr string
  | JArr "json list"
  | JObj "(string \<times> json) list"

text \<open>The truth value that \<^verbatim>\<open>not\<close> and \<^verbatim>\<open>or\<close> give to a value.\<close>

fun truthy :: "json \<Rightarrow> bool" where
  "truthy JNull = False"
| "truthy (JBool b) = b"
| "truthy (JNum x) = (x \<noteq> 0)"
| "truthy (JStr s) = (s \<noteq> [])"
| "truthy (JArr xs) = (xs \<noteq> [])"
| "truthy (JObj kvs) = (kvs \<noteq> [])"

text \<open>\<^verbatim>\<open>a or b\<close>.\<close>

definition or_else :: "json \<Rightarrow> json \<Rightarrow> json" where
  "or_else a b = (if truthy a then a else b)"

text \<open>\<^verbatim>\<open>d.get(key)\<close> on a dictionary: \<^verbatim>\<open>None\<close> for an absent key.\<close>

definition obj_get :: "(string \<times> json) list \<Rightarrow> string \<Rightarrow> json" where
  "obj_get d k = (case map_of d k of None \<Rightarrow> JNull | Some v \<Rightarrow> v)"

text \<open>
  The values that a \<^verbatim>\<open>for\<close> loop takes from a value: the elements of a list, the keys of
  a dictionary, the characters of a string. The other values are not iterable, and
  \<^const>\<open>None\<close> is the \<^verbatim>\<open>TypeError\<close> that the loop raises on them.
\<close>

fun iter :: "json \<Rightarrow> json list option" where
  "iter (JArr xs) = Some xs"
| "iter (JObj kvs) = Some (map (\<lambda>kv. JStr (fst kv)) kvs)"
| "iter (JStr s) = Some (map (\<lambda>c. JStr [c]) s)"
| "iter JNull = None"
| "iter (JBool b) = None"
| "iter (JNum x) = None"

section \<open>convert_mgrs\<close>

text \<open>
  An entry of the response. The name, the colour and the category are the values of the
  request, of whatever type; \<^const>\<open>None\<close> is a key that the entry does not have. Latitudes
  and longitudes are real numbers. The conversion library and the rounding that Python does
  on floats are parameters of the model: the library either returns a pair or raises, and
  \<^const>\<open>Inl\<close> carries the text of the exception.
\<close>

record converted_point =
  out_name :: json
  out_mgrs :: string
  out_lat :: "real option"
  out_lon :: "real option"
  out_error :: "string option"
  out_color :: json
  out_category :: json

record mgrs_lib =
  toLatLon :: "string \<Rightarrow> string + real \<times> real"
  round8 :: "real \<Rightarrow> real"

text \<open>
  The \<^verbatim>\<open>try\<close> block of the loop body up to the range check: the exception of the library
  and the \<^verbatim>\<open>ValueError\<close> raised by the check both reach the same handler.
\<close>

definition try_toLatLon :: "mgrs_lib \<Rightarrow> string \<Rightarrow> string + real \<times> real" where
  "try_toLatLon lib clean_mgrs =
     (case toLatLon lib clean_mgrs of
        Inl e \<Rightarrow> Inl e
      | Inr (lat, lon) \<Rightarrow>
          if \<not> (- 90 \<le> lat \<and> lat \<le> 90) \<or> \<not> (- 180 \<le> lon \<and> lon \<le> 180)
          then Inl ''Coordinates out of valid range''
          else Inr (lat, lon))"

text \<open>
  One iteration of the loop: what it does to the list \<^verbatim>\<open>out\<close>. The first statement of the
  body is outside the inner \<^verbatim>\<open>try\<close> block: \<^verbatim>\<open>p.get\<close> raises \<^verbatim>\<open>AttributeError\<close> when the item
  is not a dictionary, and \<^verbatim>\<open>.strip()\<close> raises it when the code is not a string. \<^const>\<open>None\<close>
  is that exception, which leaves the loop.
\<close>

definition convert_step :: "mgrs_lib \<Rightarrow> nat \<Rightarrow> json \<Rightarrow> converted_point list \<Rightarrow> converted_point list option" where
  "convert_step lib i p out =
     (case p of
        JObj d \<Rightarrow>
          (case or_else (obj_get d ''mgrs'') (JStr []) of
             JStr raw \<Rightarrow>
               (let code = strip raw;
                    name = or_else (obj_get d ''name'') (JStr (''Ponto '' @ str_nat (i + 1)));
                    color = or_else (obj_get d ''color'') (JStr ''#3388ff'');
                    category = or_else (obj_get d ''category'') (JStr ''Ponto'')
                in
                  if code = [] then
                    Some (out @ [\<lparr>out_name = name, out_mgrs = code, out_lat = None, out_lon = None,
                                   out_error = Some ''MGRS code is required'',
                                   out_color = color, out_category = category\<rparr>])
                  else
                    case validate_mgrs_format code of
                      (False, result) \<Rightarrow>
                        Some (out @ [\<lparr>out_name = name, out_mgrs = code, out_lat = None,
                                       out_lon = None, out_error = Some result,
                                       out_color = color, out_category = category\<rparr>])
                    | (True, clean_mgrs) \<Rightarrow>
                        (case try_toLatLon lib clean_mgrs of
                           Inr (lat, lon) \<Rightarrow>
                             Some (out @ [\<lparr>out_name = name, out_mgrs = clean_mgrs,
                                            out_lat = Some (round8 lib lat),
                                            out_lon = Some (round8 lib lon),
                                            out_error = None,
                                            out_color = color, out_category = category\<rparr>])
                         | Inl e \<Rightarrow>
                             Some (out @ [\<lparr>out_name = name, out_mgrs = clean_mgrs,
                                            out_lat = None, out_lon = None,
                                            out_error = Some (''Falha ao converter MGRS: '' @ e),
                                            out_color = color, out_category = category\<rparr>])))
           | _ \<Rightarrow> None)
      | _ \<Rightarrow> None)"

fun convert_loop :: "mgrs_lib \<Rightarrow> nat \<Rightarrow> json list \<Rightarrow> converted_point list \<Rightarrow> converted_point list option" where
  "convert_loop lib i [] out = Some out"
| "convert_loop lib i (p # ps) out =
     (case convert_step lib i p out of
        None \<Rightarrow> None
      | Some out' \<Rightarrow> convert_loop lib (Suc i) ps out')"

text \<open>
  The batch conversion proper: the loop from the empty list \<^verbatim>\<open>out\<close>, over the items of the
  request. \<^const>\<open>None\<close> when an item makes the loop raise.
\<close>

definition convertBatch :: "mgrs_lib \<Rightarrow> json list \<Rightarrow> converted_point list option" where
  "convertBatch lib points = convert_loop lib 0 points []"

text \<open>
  The endpoint, from the parsed body of the request (\<^const>\<open>None\<close> when the body cannot be
  parsed) to an error message with its status or the list of the response. An exception
  anywhere in the function reaches the outer handler, which answers with status 500.
  Logging is left out.
\<close>

definition convert_mgrs :: "mgrs_lib \<Rightarrow> json option \<Rightarrow> string \<times> nat + converted_point list" where
  "convert_mgrs lib request_json =
     (let data = or_else (case request_json of None \<Rightarrow> JNull | Some v \<Rightarrow> v) (JObj [])
      in case data of
           JObj d \<Rightarrow>
             (let points = (case map_of d ''points'' of None \<Rightarrow> JArr [] | Some v \<Rightarrow> v)
              in if \<not> truthy points then Inl (''No points provided'', 400)
                 else
                   case iter points of
                     None \<Rightarrow> Inl (''Internal server error'', 500)
                   | Some items \<Rightarrow>
                       (case convertBatch lib items of
                          None \<Rightarrow> Inl (''Internal server error'', 500)
                        | Some out \<Rightarrow> Inr out))
         | _ \<Rightarrow> Inl (''Internal server error'', 500))"

text \<open>
  The items on which the loop body does not raise: dictionaries whose \<^verbatim>\<open>mgrs\<close> is a
  string, is absent, or is a value that \<^verbatim>\<open>or\<close> replaces by the empty string.
\<close>

definition well_formed_item :: "json \<Rightarrow> bool" where
  "well_formed_item p =
     (case p of
        JObj d \<Rightarrow> (case or_else (obj_get d ''mgrs'') (JStr []) of JStr raw \<Rightarrow> True | _ \<Rightarrow> False)
      | _ \<Rightarrow> False)"

section \<open>export_kml\<close>

text \<open>
  A point of the export request, with the types of the data model: its fields, when
  present, are strings, and its latitude and longitude numbers. \<^const>\<open>None\<close> is an absent
  key and, for the coordinates and the fields read with \<^verbatim>\<open>or\<close>, also a null value. What
  the function takes from
  its runtime is a parameter: the clock (read once on entry, once for every rendered marker
  and once for the route), the formatting of floats (\<^verbatim>\<open>{x:.6f}\<close> and \<^verbatim>\<open>{x}\<close>), and the
  order in which a set of strings is iterated.
\<close>

record export_point =
  ex_name :: "string option"
  ex_mgrs :: "string option"
  ex_category :: "string option"
  ex_iconType :: "string option"
  ex_color :: "string option"
  ex_lat :: "real option"
  ex_lon :: "real option"

record runtime =
  now_stamp :: string
  now_marker :: "nat \<Rightarrow> string"
  now_route :: string
  fmt_6f :: "real \<Rightarrow> string"
  fmt_str :: "real \<Rightarrow> string"
  set_iter :: "string list \<Rightarrow> string list"

record kml_response =
  body :: string
  content_type :: string
  content_disposition :: string

text \<open>\<^verbatim>\<open>p.get(key) or default\<close>: the empty string is falsy.\<close>

definition get_or :: "string option \<Rightarrow> string \<Rightarrow> string" where
  "get_or v d = (case v of None \<Rightarrow> d | Some s \<Rightarrow> if s = [] then d else s)"

text \<open>\<^verbatim>\<open>p.get(key, default)\<close>: only an absent key gives the default.\<close>

definition get_default :: "string option \<Rightarrow> string \<Rightarrow> string" where
  "get_default v d = (case v of None \<Rightarrow> d | Some s \<Rightarrow> s)"

definition kml_icon_map :: "(string \<times> string) list" where
  "kml_icon_map =
     [(''circle'', ''http://maps.google.com/mapfiles/kml/pushpin/red-pushpin.png''),
      (''target'', ''http://maps.google.com/mapfiles/kml/shapes/target.png''),
      (''base'', ''http://maps.google.com/mapfiles/kml/shapes/camping.png''),
      (''enemy'', ''http://maps.google.com/mapfiles/kml/shapes/caution.png''),
      (''observation'', ''http://maps.google.com/mapfiles/kml/shapes/ranger_station.png''),
      (''extraction'', ''http://maps.google.com/mapfiles/kml/shapes/helicopter.png''),
      (''medical'', ''http://maps.google.com/mapfiles/kml/shapes/hospitals.png''),
      (''supply'', ''http://maps.google.com/mapfiles/kml/shapes/convenience.png''),
      (''checkpoint'', ''http://maps.google.com/mapfiles/kml/shapes/roadblock.png''),
      (''sniper'', ''http://maps.google.com/mapfiles/kml/shapes/target.png'')]"

definition icon_names :: "(string \<times> string) list" where
  "icon_names =
     [(''circle'', ''Padr'' @ [CHR 0xE3] @ ''o''),
      (''target'', ''Alvo''),
      (''base'', ''Base''),
      (''enemy'', ''Inimigo''),
      (''observation'', ''Observa'' @ [CHR 0xE7, CHR 0xE3] @ ''o''),
      (''extraction'', ''Extra'' @ [CHR 0xE7, CHR 0xE3] @ ''o''),
      (''medical'', ''M'' @ [CHR 0xE9] @ ''dico''),
      (''supply'', ''Suprimentos''),
      (''checkpoint'', ''Checkpoint''),
      (''sniper'', ''Sniper'')]"

text \<open>\<^verbatim>\<open>d.get(key, default)\<close> on a dictionary literal.\<close>

definition dict_get :: "(string \<times> string) list \<Rightarrow> string \<Rightarrow> string \<Rightarrow> string" where
  "dict_get d k dflt = (case map_of d k of Some v \<Rightarrow> v | None \<Rightarrow> dflt)"

text \<open>
  The first loop collects the icon types of all the points of the request in a set; the
  list below holds the elements of that set, each once.
\<close>

fun used_icons_loop :: "export_point list \<Rightarrow> string list \<Rightarrow> string list" where
  "used_icons_loop [] used_icons = used_icons"
| "used_icons_loop (p # ps) used_icons =
     (let icon_type = get_default (ex_iconType p) ''circle''
      in used_icons_loop ps (if icon_type \<in> set used_icons then used_icons
                             else used_icons @ [icon_type]))"

text \<open>The second loop appends four lines for each element of the set.\<close>

fun styles_loop :: "string list \<Rightarrow> string list \<Rightarrow> string list" where
  \<open>styles_loop [] kml = kml\<close>
| \<open>styles_loop (icon_type # rest) kml =
     (let icon_url = dict_get kml_icon_map icon_type
                       (dict_get kml_icon_map ''circle'' [])
      in styles_loop rest
           (kml @ [''<Style id="style_'' @ icon_type @ ''">'',
                   ''<IconStyle><scale>1.3</scale><Icon><href>'' @ icon_url
                     @ ''</href></Icon></IconStyle>'',
                   ''<LabelStyle><scale>1.2</scale></LabelStyle>'',
                   ''</Style>'']))\<close>

text \<open>The name of a marker, as the third loop computes it.\<close>

definition marker_name :: "nat \<Rightarrow> export_point \<Rightarrow> string" where
  "marker_name i p =
     replace CHR ''>'' ''&gt;''
       (replace CHR ''<'' ''&lt;''
          (replace CHR ''&'' ''&amp;'' (get_or (ex_name p) (''Ponto '' @ str_nat (i + 1)))))"

definition description :: "runtime \<Rightarrow> nat \<Rightarrow> string \<Rightarrow> string \<Rightarrow> string \<Rightarrow> string \<Rightarrow> real \<Rightarrow> real \<Rightarrow> string" where
  \<open>description rt i mgrs_code category icon_name color lat lon =
     ''<![CDATA['' @ [CHR 0x0A]
     @ ''                <b>MGRS:</b> '' @ mgrs_code @ ''<br>'' @ [CHR 0x0A]
     @ ''                <b>Categoria:</b> '' @ category @ ''<br>'' @ [CHR 0x0A]
     @ ''                <b>Tipo de '' @ [CHR 0xCD] @ ''cone:</b> '' @ icon_name @ ''<br>'' @ [CHR 0x0A]
     @ ''                <b>Cor:</b> '' @ color @ ''<br>'' @ [CHR 0x0A]
     @ ''                <b>Coordenadas:</b> '' @ fmt_6f rt lat @ '', '' @ fmt_6f rt lon
         @ ''<br>'' @ [CHR 0x0A]
     @ ''                <b>Exportado em:</b> '' @ now_marker rt i @ ''<br>'' @ [CHR 0x0A]
     @ ''                <b>Fonte:</b> Task Force MGRS Mapper v2.0'' @ [CHR 0x0A]
     @ ''            ]]>''\<close>

text \<open>
  One iteration of the third loop, on the list \<^verbatim>\<open>kml\<close> and the list \<^verbatim>\<open>valid_points\<close>: a
  point without latitude or longitude is skipped.
\<close>

definition export_step :: "runtime \<Rightarrow> nat \<Rightarrow> export_point \<Rightarrow> string list \<times> export_point list \<Rightarrow> string list \<times> export_point list" where
  \<open>export_step rt i p st =
     (let name = marker_name i p;
          mgrs_code = replace CHR ''&'' ''&amp;'' (get_or (ex_mgrs p) []);
          category = replace CHR ''&'' ''&amp;'' (get_or (ex_category p) ''Ponto'');
          icon_type = get_default (ex_iconType p) ''circle'';
          color = get_default (ex_color p) ''#3388ff''
      in
        case ex_lat p of
          None \<Rightarrow> st
        | Some lat \<Rightarrow>
            (case ex_lon p of
               None \<Rightarrow> st
             | Some lon \<Rightarrow>
                 (let icon_name = dict_get icon_names icon_type (''Padr'' @ [CHR 0xE3] @ ''o'')
                  in (fst st @
                        [''<Placemark><name>'' @ name @ ''</name>''
                         @ ''<description>''
                         @ description rt i mgrs_code category icon_name color lat lon
                         @ ''</description>''
                         @ ''<styleUrl>#style_'' @ icon_type @ ''</styleUrl>''
                         @ ''<Point><coordinates>'' @ fmt_str rt lon @ '','' @ fmt_str rt lat
                         @ '',0</coordinates></Point>''
                         @ ''</Placemark>''],
                      snd st @ [p]))))\<close>

fun export_loop :: "runtime \<Rightarrow> nat \<Rightarrow> export_point list \<Rightarrow> string list \<times> export_point list \<Rightarrow> string list \<times> export_point list" where
  "export_loop rt i [] st = st"
| "export_loop rt i (p # ps) st = export_loop rt (Suc i) ps (export_step rt i p st)"

text \<open>
  The coordinates of the route read \<^verbatim>\<open>p['lon']\<close> and \<^verbatim>\<open>p['lat']\<close>, which raise when the key
  is absent: \<^const>\<open>None\<close> is that exception.
\<close>

fun route_coords :: "runtime \<Rightarrow> export_point list \<Rightarrow> string list option" where
  "route_coords rt [] = Some []"
| "route_coords rt (p # ps) =
     (case ex_lon p of
        None \<Rightarrow> None
      | Some lon \<Rightarrow>
          (case ex_lat p of
             None \<Rightarrow> None
           | Some lat \<Rightarrow>
               (case route_coords rt ps of
                  None \<Rightarrow> None
                | Some rest \<Rightarrow> Some ((fmt_str rt lon @ '','' @ fmt_str rt lat @ '',0'') # rest))))"

definition route_description :: "runtime \<Rightarrow> export_point list \<Rightarrow> string" where
  \<open>route_description rt valid_points =
     ''<![CDATA['' @ [CHR 0x0A]
     @ ''                <b>Rota conectando '' @ str_nat (length valid_points)
         @ '' pontos</b><br>'' @ [CHR 0x0A]
     @ ''                <b>Dist'' @ [CHR 0xE2] @ ''ncia aproximada:</b> Calculada pelo Google Earth<br>''
         @ [CHR 0x0A]
     @ ''                <b>Criado em:</b> '' @ now_route rt @ [CHR 0x0A]
     @ ''            ]]''\<close>

text \<open>
  The list \<^verbatim>\<open>kml\<close> when the function joins it, together with \<^verbatim>\<open>valid_points\<close>;
  \<^const>\<open>None\<close> when building it raised.
\<close>

definition kml_lines :: "runtime \<Rightarrow> export_point list \<Rightarrow> bool \<Rightarrow> (string list \<times> export_point list) option" where
  \<open>kml_lines rt points connect =
     (let timestamp = now_stamp rt;
          kml = [''<?xml version="1.0" encoding="UTF-8"?>'',
                 ''<kml xmlns="http://www.opengis.net/kml/2.2">'',
                 ''<Document><name>Marcadores MGRS - '' @ timestamp @ ''</name>'',
                 ''<description>Exportado do Task Force MGRS Mapper v2.0</description>''];
          used_icons = used_icons_loop points [];
          kml = styles_loop (set_iter rt used_icons) kml;
          kml = kml @ [''<Style id="routeStyle">'',
                       ''<LineStyle><color>ff0000ff</color><width>4</width></LineStyle>'',
                       ''</Style>''];
          kml = kml @ [''<Folder><name>Pontos</name>''];
          (kml, valid_points) = export_loop rt 0 points (kml, []);
          kml = kml @ [''</Folder>'']
      in
        if connect \<and> length valid_points \<ge> 2 then
          (case route_coords rt valid_points of
             None \<Rightarrow> None
           | Some cs \<Rightarrow>
               (let coords = join '' '' cs;
                    kml = kml @ [''<Folder><name>Rota</name>''];
                    kml = kml @
                      [''<Placemark><name>Rota T'' @ [CHR 0xE1] @ ''tica</name>''
                       @ ''<description>'' @ route_description rt valid_points @ ''</description>''
                       @ ''<styleUrl>#routeStyle</styleUrl>''
                       @ ''<LineString><tessellate>1</tessellate><altitudeMode>clampToGround</altitudeMode>''
                       @ ''<coordinates>'' @ coords @ ''</coordinates></LineString></Placemark>''];
                    kml = kml @ [''</Folder>'']
                in Some (kml @ [''</Document></kml>''], valid_points)))
        else Some (kml @ [''</Document></kml>''], valid_points))\<close>

text \<open>
  The endpoint: an error message with its status, or the response with the document. An
  exception anywhere in the function is answered with status 500.
\<close>

definition export_kml :: "runtime \<Rightarrow> export_point list \<Rightarrow> bool \<Rightarrow> string \<times> nat + kml_response" where
  "export_kml rt points connect =
     (if points = [] then Inl (''No points to export'', 400)
      else
        case kml_lines rt points connect of
          None \<Rightarrow> Inl (''Failed to export KML'', 500)
        | Some (kml, valid_points) \<Rightarrow>
            Inr \<lparr>body = join [CHR 0x0A] kml,
                 content_type = ''application/vnd.google-earth.kml+xml'',
                 content_disposition =
                   ''attachment; filename=marcadores_mgrs_'' @ now_stamp rt @ ''.kml''\<rparr>)"

section \<open>Escaped text\<close>

text \<open>
  What the specification asks of a name in the document, in its own words: the characters
  \<open>&\<close>, \<open><\<close> and \<open>>\<close> are replaced by their entity forms, and the text has no raw occurrence of
  them, that is, no \<open><\<close>, no \<open>>\<close>, and no \<open>&\<close> other than the first character of one of the
  three entities. These two definitions are not taken from the code; the code is compared
  with them.
\<close>

definition entity_form :: "char \<Rightarrow> string" where
  "entity_form c =
     (if c = CHR ''&'' then ''&amp;''
      else if c = CHR ''<'' then ''&lt;''
      else if c = CHR ''>'' then ''&gt;''
      else [c])"

fun no_raw_markup :: "string \<Rightarrow> bool" where
  "no_raw_markup [] = True"
| "no_raw_markup (c # cs) =
     (c \<noteq> CHR ''<'' \<and> c \<noteq> CHR ''>''
      \<and> (c = CHR ''&'' \<longrightarrow> take 4 cs = ''amp;'' \<or> take 3 cs = ''lt;'' \<or> take 3 cs = ''gt;'')
      \<and> no_raw_markup cs)"

section \<open>Properties of the validator\<close>

lemma re_match_Cons_iff:
  "re_match ((cl, lo, hi) # items) s \<longleftrightarrow>
     (\<exists>u v. s = u @ v \<and> lo \<le> length u \<and> length u \<le> hi \<and> list_all (in_class cl) u
            \<and> re_match items v)"
proof
  assume "re_match ((cl, lo, hi) # items) s"
  then obtain k where k: "lo \<le> k" "k \<le> hi" "k \<le> length s"
      "list_all (in_class cl) (take k s)" "re_match items (drop k s)"
    by (auto simp: list_ex_iff)
  have "s = take k s @ drop k s" by simp
  moreover have "length (take k s) = k" using k(3) by simp
  ultimately show "\<exists>u v. s = u @ v \<and> lo \<le> length u \<and> length u \<le> hi
      \<and> list_all (in_class cl) u \<and> re_match items v"
    using k by metis
next
  assume "\<exists>u v. s = u @ v \<and> lo \<le> length u \<and> length u \<le> hi \<and> list_all (in_class cl) u
            \<and> re_match items v"
  then obtain u v where "s = u @ v" "lo \<le> length u" "length u \<le> hi"
      "list_all (in_class cl) u" "re_match items v"
    by blast
  then show "re_match ((cl, lo, hi) # items) s"
    by (auto simp: list_ex_iff intro!: bexI [of _ "length u"])
qed

lemma in_class_Digit: "list_all (in_class Digit) xs = list_all isdecimal xs"
  by (simp add: list_all_iff)

lemma re_match_patternD:
  assumes "re_match pattern s"
  shows "\<exists>z b sq ds e. s = z @ b # sq @ ds @ e \<and> (e = [] \<or> e = [CHR 0x0A])
        \<and> 1 \<le> length z \<and> length z \<le> 2 \<and> list_all isdecimal z
        \<and> in_class (Range CHR ''C'' CHR ''X'') b
        \<and> length sq = 2 \<and> list_all (in_class (Range CHR ''A'' CHR ''Z'')) sq
        \<and> 2 \<le> length ds \<and> length ds \<le> 10 \<and> list_all isdecimal ds"
proof -
  from assms obtain z v1 where 1: "s = z @ v1" "1 \<le> length z" "length z \<le> 2"
      "list_all (in_class Digit) z"
    and m1: "re_match [(Range CHR ''C'' CHR ''X'', 1, 1), (Range CHR ''A'' CHR ''Z'', 2, 2),
              (Digit, 2, 10)] v1"
    unfolding pattern_def re_match_Cons_iff [of Digit 1 2] by blast
  from m1 obtain u2 v2 where 2: "v1 = u2 @ v2" "1 \<le> length u2" "length u2 \<le> 1"
      "list_all (in_class (Range CHR ''C'' CHR ''X'')) u2"
    and m2: "re_match [(Range CHR ''A'' CHR ''Z'', 2, 2), (Digit, 2, 10)] v2"
    unfolding re_match_Cons_iff [of _ 1 1] by blast
  from 2 obtain b where b: "u2 = [b]" "in_class (Range CHR ''C'' CHR ''X'') b"
    by (cases u2) (simp_all del: in_class.simps)
  from m2 obtain sq v3 where 3: "v2 = sq @ v3" "2 \<le> length sq" "length sq \<le> 2"
      "list_all (in_class (Range CHR ''A'' CHR ''Z'')) sq"
    and m3: "re_match [(Digit, 2, 10)] v3"
    unfolding re_match_Cons_iff [of _ 2 2] by blast
  from m3 obtain ds e where 4: "v3 = ds @ e" "2 \<le> length ds" "length ds \<le> 10"
      "list_all (in_class Digit) ds" "e = [] \<or> e = [CHR 0x0A]"
    unfolding re_match_Cons_iff [of _ 2 10] re_match.simps(1) by blast
  have "s = z @ b # sq @ ds @ e" using 1 2 3 4 b by simp
  moreover have "length sq = 2" using 3 by simp
  ultimately show ?thesis using 1 b 3 4 unfolding in_class_Digit by blast
qed

lemma re_match_patternI:
  assumes "1 \<le> length z" "length z \<le> 2" "list_all isdecimal z"
     "in_class (Range CHR ''C'' CHR ''X'') b"
     "length sq = 2" "list_all (in_class (Range CHR ''A'' CHR ''Z'')) sq"
     "2 \<le> length ds" "length ds \<le> 10" "list_all isdecimal ds"
  shows "re_match pattern (z @ b # sq @ ds)"
proof -
  have d: "list_all (in_class Digit) ds" "list_all (in_class Digit) z"
    using assms by (simp_all add: list_all_iff)
  have "re_match [(Digit, 2, 10)] ds"
    unfolding re_match_Cons_iff [of _ 2 10] using assms d
    by (intro exI [of _ ds] exI [of _ "[]"]) simp
  then have "re_match [(Range CHR ''A'' CHR ''Z'', 2, 2), (Digit, 2, 10)] (sq @ ds)"
    unfolding re_match_Cons_iff [of _ 2 2] using assms
    by (intro exI [of _ sq] exI [of _ ds]) simp
  then have "re_match [(Range CHR ''C'' CHR ''X'', 1, 1), (Range CHR ''A'' CHR ''Z'', 2, 2),
              (Digit, 2, 10)] ([b] @ sq @ ds)"
    unfolding re_match_Cons_iff [of _ 1 1] using assms
    by (intro exI [of _ "[b]"] exI [of _ "sq @ ds"]) simp
  then show ?thesis
    unfolding pattern_def re_match_Cons_iff [of Digit 1 2] using assms d
    by (intro exI [of _ z] exI [of _ "b # sq @ ds"]) simp
qed


lemma isspace_newline: "isspace (CHR 0x0A)"
  by (simp add: isspace_def)

lemma upper_letter_not_digit: "in_class (Range CHR ''A'' CHR ''Z'') c \<Longrightarrow> \<not> isdigit c"
  by (auto simp: isdigit_def)

lemma coord_start_shape:
  assumes "1 \<le> length z" "length z \<le> 2" "length sq = 2"
    "list_all (in_class (Range CHR ''A'' CHR ''Z'')) sq" "ds \<noteq> []" "list_all isdecimal ds"
  shows "coord_start_loop 0 (z @ b # sq @ ds @ e) = length z + 3"
proof -
  obtain s1 s2 where sq: "sq = [s1, s2]"
    using assms(3) by (auto simp: length_Suc_conv numeral_2_eq_2)
  obtain d ds' where ds: "ds = d # ds'" using assms(5) by (cases ds) auto
  have nd: "\<not> isdigit s1" "\<not> isdigit s2" "isdigit d"
    using assms(4,6) sq ds by (auto simp: isdigit_def isdecimal_def Let_def)
  consider z1 where "z = [z1]" | z1 z2 where "z = [z1, z2]"
    using assms(1,2) by (cases z; cases "tl z") auto
  then show ?thesis
    by cases (simp_all add: sq ds nd numeral_3_eq_3)
qed

lemma clean_match_shape:
  assumes "re_match pattern (re_sub_spaces t)"
  shows "\<exists>z b sq ds. re_sub_spaces t = z @ b # sq @ ds
        \<and> 1 \<le> length z \<and> length z \<le> 2 \<and> list_all isdecimal z
        \<and> in_class (Range CHR ''C'' CHR ''X'') b
        \<and> length sq = 2 \<and> list_all (in_class (Range CHR ''A'' CHR ''Z'')) sq
        \<and> 2 \<le> length ds \<and> length ds \<le> 10 \<and> list_all isdecimal ds"
proof -
  from re_match_patternD [OF assms] obtain z b sq ds e where
    s: "re_sub_spaces t = z @ b # sq @ ds @ e" and e: "e = [] \<or> e = [CHR 0x0A]"
    and r: "1 \<le> length z" "length z \<le> 2" "list_all isdecimal z"
      "in_class (Range CHR ''C'' CHR ''X'') b"
      "length sq = 2" "list_all (in_class (Range CHR ''A'' CHR ''Z'')) sq"
      "2 \<le> length ds" "length ds \<le> 10" "list_all isdecimal ds"
    by blast
  have "e = []"
  proof (rule ccontr)
    assume "e \<noteq> []"
    with e have "CHR 0x0A \<in> set (re_sub_spaces t)" unfolding s by auto
    then show False by (simp add: re_sub_spaces_def isspace_newline)
  qed
  with s r show ?thesis by auto
qed

lemma coord_part_of_match:
  assumes "re_match pattern (re_sub_spaces t)"
  shows "2 \<le> length (drop (coord_start_loop 0 (re_sub_spaces t)) (re_sub_spaces t))
       \<and> length (drop (coord_start_loop 0 (re_sub_spaces t)) (re_sub_spaces t)) \<le> 10"
proof -
  from clean_match_shape [OF assms] obtain z b sq ds where
    s: "re_sub_spaces t = z @ b # sq @ ds"
    and r: "1 \<le> length z" "length z \<le> 2" "length sq = 2"
      "list_all (in_class (Range CHR ''A'' CHR ''Z'')) sq"
      "2 \<le> length ds" "length ds \<le> 10" "list_all isdecimal ds"
    by blast
  have "ds \<noteq> []" using r(5) by auto
  from coord_start_shape [OF r(1,2,3,4) this r(7), of b "[]"]
  have "coord_start_loop 0 (re_sub_spaces t) = length z + 3" by (simp add: s)
  then have "drop (coord_start_loop 0 (re_sub_spaces t)) (re_sub_spaces t) = ds"
    using r(3) by (simp add: s)
  then show ?thesis using r by simp
qed

lemma even_in_valid_lengths:
  "2 \<le> n \<Longrightarrow> n \<le> 10 \<Longrightarrow> n mod 2 = 0 \<Longrightarrow> n \<in> set valid_lengths"
  unfolding valid_lengths_def by (simp; presburger)

lemma digit_fixed: "isdecimal c \<Longrightarrow> upper_char c = [c] \<and> \<not> isspace c"
  by (auto simp: isdecimal_def upper_char_def isspace_def Let_def)

lemma upper_letter_fixed:
  "in_class (Range CHR ''A'' CHR ''Z'') c \<Longrightarrow> upper_char c = [c] \<and> \<not> isspace c"
  by (auto simp: upper_char_def isspace_def Let_def)

lemma clean_fixed:
  "\<forall>c\<in>set w. upper_char c = [c] \<and> \<not> isspace c \<Longrightarrow> re_sub_spaces (upper w) = w"
  by (induction w) (simp_all add: re_sub_spaces_def upper_def)

lemma band_CX_is_letter:
  "in_class (Range CHR ''C'' CHR ''X'') c \<Longrightarrow> in_class (Range CHR ''A'' CHR ''Z'') c"
  by simp

lemma shape_clean_fixed:
  assumes "list_all isdecimal z" "in_class (Range CHR ''A'' CHR ''Z'') b"
    "list_all (in_class (Range CHR ''A'' CHR ''Z'')) sq" "list_all isdecimal ds"
  shows "re_sub_spaces (upper (z @ b # sq @ ds)) = z @ b # sq @ ds"
proof -
  have "\<forall>c\<in>set (z @ b # sq @ ds). upper_char c = [c] \<and> \<not> isspace c"
    using assms digit_fixed upper_letter_fixed
    by (auto simp: list_all_iff simp del: in_class.simps)
  then show ?thesis by (rule clean_fixed)
qed

lemma matched_clean_fixed:
  assumes "re_match pattern (re_sub_spaces t)"
  shows "re_sub_spaces (upper (re_sub_spaces t)) = re_sub_spaces t"
proof -
  from clean_match_shape [OF assms] obtain z b sq ds where
    s: "re_sub_spaces t = z @ b # sq @ ds"
    and r: "list_all isdecimal z" "in_class (Range CHR ''C'' CHR ''X'') b"
      "list_all (in_class (Range CHR ''A'' CHR ''Z'')) sq" "list_all isdecimal ds"
    by blast
  from r(2) have "in_class (Range CHR ''A'' CHR ''Z'') b" by (rule band_CX_is_letter)
  from shape_clean_fixed [OF r(1) this r(3,4)] show ?thesis unfolding s .
qed

lemma re_match_pattern_nonempty: "re_match pattern s \<Longrightarrow> s \<noteq> []"
proof
  assume "re_match pattern s" "s = []"
  from re_match_patternD [OF this(1)] obtain z b r where "s = z @ b # r" by blast
  with \<open>s = []\<close> show False by simp
qed


lemma validate_True_iff:
  "validate_mgrs_format s = (True, n) \<longleftrightarrow>
     s \<noteq> [] \<and> n = re_sub_spaces (upper s) \<and> re_match pattern n
     \<and> length (drop (coord_start_loop 0 n) n) mod 2 = 0
     \<and> length (drop (coord_start_loop 0 n) n) \<in> set valid_lengths"
  unfolding validate_mgrs_format_def Let_def
  by (simp only: if_distrib [of "\<lambda>r. r = (True, n)"] prod.inject simp_thms if_False
        if_bool_eq_conj) auto

text \<open>
  Claim C7: validation is idempotent on its own successful output. When
  \<^verbatim>\<open>validate_mgrs_format\<close> accepts a code and returns the normalised code \<open>n\<close>, it accepts
  \<open>n\<close> as well and returns \<open>n\<close> again.
\<close>

theorem validate_idempotent:
  assumes "validate_mgrs_format s = (True, n)"
  shows "validate_mgrs_format n = (True, n)"
proof -
  from assms have n: "n = re_sub_spaces (upper s)" and m: "re_match pattern n"
    and l: "length (drop (coord_start_loop 0 n) n) mod 2 = 0"
       "length (drop (coord_start_loop 0 n) n) \<in> set valid_lengths"
    unfolding validate_True_iff by blast+
  have c: "n = re_sub_spaces (upper n)"
    using m unfolding n by (rule matched_clean_fixed [symmetric])
  have "n \<noteq> []" using m by (rule re_match_pattern_nonempty)
  then show ?thesis
    unfolding validate_True_iff [of n n] using c m l by blast
qed


text \<open>
  Claim C8: the two checks on the number of digits never disagree. For every input whose
  normalised form matches the pattern and whose coordinate part has an even length, that
  length is one of 2, 4, 6, 8, 10; so no input makes \<^verbatim>\<open>validate_mgrs_format\<close> return the
  message of the last check, whatever number \<open>k\<close> it would report.
\<close>

theorem digit_count_check_unreachable:
  "(re_match pattern (re_sub_spaces (upper s)) \<longrightarrow>
      length (drop (coord_start_loop 0 (re_sub_spaces (upper s))) (re_sub_spaces (upper s))) mod 2 = 0 \<longrightarrow>
      length (drop (coord_start_loop 0 (re_sub_spaces (upper s))) (re_sub_spaces (upper s)))
        \<in> set valid_lengths)
   \<and> validate_mgrs_format s \<noteq>
       (False, ''MGRS coordinates must have 2, 4, 6, 8, or 10 digits. Found '' @ str_nat k
               @ '' digits'')"
proof -
  let ?clean = "re_sub_spaces (upper s)"
  let ?part = "drop (coord_start_loop 0 ?clean) ?clean"
  have 1: "re_match pattern ?clean \<longrightarrow> length ?part mod 2 = 0 \<longrightarrow> length ?part \<in> set valid_lengths"
  proof (intro impI)
    assume m: "re_match pattern ?clean" and e: "length ?part mod 2 = 0"
    from coord_part_of_match [OF m] have "2 \<le> length ?part" "length ?part \<le> 10"
      by blast+
    then show "length ?part \<in> set valid_lengths"
      using e by (rule even_in_valid_lengths)
  qed
  have 2: "validate_mgrs_format s \<noteq>
       (False, ''MGRS coordinates must have 2, 4, 6, 8, or 10 digits. Found '' @ str_nat k
               @ '' digits'')"
  proof (cases "s = []")
    case True
    then show ?thesis by (simp add: validate_mgrs_format_def)
  next
    case ne: False
    show ?thesis
    proof (cases "re_match pattern ?clean")
      case False
      with ne show ?thesis by (simp add: validate_mgrs_format_def)
    next
      case m: True
      show ?thesis
      proof (cases "length ?part mod 2 = 0")
        case False
        with ne m show ?thesis by (simp add: validate_mgrs_format_def Let_def)
      next
        case True
        with 1 m have "length ?part \<in> set valid_lengths" by blast
        with ne m True show ?thesis by (simp add: validate_mgrs_format_def Let_def)
      qed
    qed
  qed
  from 1 2 show ?thesis by blast
qed

theorem validate_idempotent_witness:
  "validate_mgrs_format ''23kkp4014597230'' = (True, ''23KKP4014597230'')
   \<and> validate_mgrs_format ''23KKP4014597230'' = (True, ''23KKP4014597230'')"
proof -
  have h: "validate_mgrs_format ''23kkp4014597230'' = (True, ''23KKP4014597230'')"
    by code_simp
  from validate_idempotent [OF h] h show ?thesis by simp
qed

theorem digit_count_check_unreachable_witness:
  "re_match pattern (re_sub_spaces (upper ''23kkp4014597230''))
   \<and> length (drop (coord_start_loop 0 (re_sub_spaces (upper ''23kkp4014597230'')))
         (re_sub_spaces (upper ''23kkp4014597230''))) mod 2 = 0
   \<and> length (drop (coord_start_loop 0 (re_sub_spaces (upper ''23kkp4014597230'')))
         (re_sub_spaces (upper ''23kkp4014597230''))) \<in> set valid_lengths
   \<and> validate_mgrs_format ''23kkp4014597230'' \<noteq>
       (False, ''MGRS coordinates must have 2, 4, 6, 8, or 10 digits. Found '' @ str_nat 10
               @ '' digits'')"
proof -
  have m: "re_match pattern (re_sub_spaces (upper ''23kkp4014597230''))"
    by code_simp
  have e: "length (drop (coord_start_loop 0 (re_sub_spaces (upper ''23kkp4014597230'')))
         (re_sub_spaces (upper ''23kkp4014597230''))) mod 2 = 0"
    by code_simp
  from digit_count_check_unreachable [of "''23kkp4014597230''" 10] m e
  show ?thesis by blast
qed

section \<open>Properties of the batch conversion\<close>

lemma well_formed_itemD:
  assumes "well_formed_item p"
  obtains d raw where "p = JObj d" "or_else (obj_get d ''mgrs'') (JStr []) = JStr raw"
proof -
  from assms obtain d where p: "p = JObj d"
    by (cases p) (simp_all add: well_formed_item_def)
  with assms obtain raw where "or_else (obj_get d ''mgrs'') (JStr []) = JStr raw"
    by (cases "or_else (obj_get d ''mgrs'') (JStr [])") (simp_all add: well_formed_item_def)
  with p that show thesis by blast
qed

lemma convert_step_not_well_formed:
  assumes "\<not> well_formed_item p"
  shows "convert_step lib i p out = None"
proof (cases p)
  case (JObj d)
  with assms show ?thesis
    by (cases "or_else (obj_get d ''mgrs'') (JStr [])")
       (simp_all add: well_formed_item_def convert_step_def)
qed (simp_all add: convert_step_def)

lemma convert_step_acc:
  "convert_step lib i p out = map_option ((@) out) (convert_step lib i p [])"
proof (cases "well_formed_item p")
  case False
  then show ?thesis by (simp add: convert_step_not_well_formed)
next
  case True
  then obtain d raw where "p = JObj d" "or_else (obj_get d ''mgrs'') (JStr []) = JStr raw"
    by (rule well_formed_itemD)
  then show ?thesis
    by (simp add: convert_step_def Let_def split: prod.split bool.split sum.split)
qed

lemma convert_step_one:
  assumes "well_formed_item p"
  shows "map_option length (convert_step lib i p []) = Some 1"
proof -
  from assms obtain d raw where "p = JObj d" "or_else (obj_get d ''mgrs'') (JStr []) = JStr raw"
    by (rule well_formed_itemD)
  then show ?thesis
    by (simp add: convert_step_def Let_def split: prod.split bool.split sum.split)
qed

lemma convert_step_well_formed:
  assumes "well_formed_item p"
  shows "\<exists>e. \<forall>out. convert_step lib i p out = Some (out @ [e])"
proof -
  from convert_step_one [OF assms, of lib i] obtain es where
    es: "convert_step lib i p [] = Some es" "length es = 1"
    by auto
  then obtain e where e: "es = [e]" by (cases es) auto
  have "convert_step lib i p out = Some (out @ [e])" for out
    by (subst convert_step_acc) (simp add: es(1) e)
  then show ?thesis by blast
qed

lemma convert_loop_well_formed:
  "list_all well_formed_item ps \<Longrightarrow>
   \<exists>es. length es = length ps
      \<and> (\<forall>out. convert_loop lib i ps out = Some (out @ es))
      \<and> (\<forall>j<length ps. \<forall>out. convert_step lib (i + j) (ps ! j) out = Some (out @ [es ! j]))"
proof (induction ps arbitrary: i)
  case Nil
  show ?case by simp
next
  case (Cons p ps)
  from Cons.prems have wf: "well_formed_item p" and wfs: "list_all well_formed_item ps"
    by simp_all
  from convert_step_well_formed [OF wf, of lib i] obtain e where
    e: "\<forall>out. convert_step lib i p out = Some (out @ [e])"
    by blast
  from Cons.IH [OF wfs, of "Suc i"] obtain es where
    es: "length es = length ps" "\<forall>out. convert_loop lib (Suc i) ps out = Some (out @ es)"
      "\<forall>j<length ps. \<forall>out. convert_step lib (Suc i + j) (ps ! j) out = Some (out @ [es ! j])"
    by blast
  have 1: "length (e # es) = length (p # ps)" using es(1) by simp
  have 2: "\<forall>out. convert_loop lib i (p # ps) out = Some (out @ e # es)"
    using e es(2) by simp
  have 3: "\<forall>j<length (p # ps). \<forall>out.
      convert_step lib (i + j) ((p # ps) ! j) out = Some (out @ [(e # es) ! j])"
  proof (intro allI impI)
    fix j out
    assume j: "j < length (p # ps)"
    show "convert_step lib (i + j) ((p # ps) ! j) out = Some (out @ [(e # es) ! j])"
    proof (cases j)
      case 0
      then show ?thesis using e by simp
    next
      case (Suc k)
      with j have "k < length ps" by simp
      with es(3) have "convert_step lib (Suc i + k) (ps ! k) out = Some (out @ [es ! k])"
        by blast
      with Suc show ?thesis by simp
    qed
  qed
  from 1 2 3 show ?case by blast
qed

lemma convert_loop_not_well_formed:
  "\<not> list_all well_formed_item ps \<Longrightarrow> convert_loop lib i ps out = None"
proof (induction ps arbitrary: i out)
  case Nil
  then show ?case by simp
next
  case (Cons p ps)
  show ?case
  proof (cases "well_formed_item p")
    case False
    then show ?thesis by (simp add: convert_step_not_well_formed)
  next
    case True
    with Cons.prems have "\<not> list_all well_formed_item ps" by simp
    then have "\<And>out'. convert_loop lib (Suc i) ps out' = None" by (rule Cons.IH)
    then show ?thesis by (simp split: option.split)
  qed
qed

lemma convertBatch_None_iff:
  "convertBatch lib ps = None \<longleftrightarrow> \<not> list_all well_formed_item ps"
proof
  assume n: "convertBatch lib ps = None"
  show "\<not> list_all well_formed_item ps"
  proof
    assume "list_all well_formed_item ps"
    from convert_loop_well_formed [OF this, of lib 0] n show False
      by (auto simp: convertBatch_def)
  qed
next
  assume "\<not> list_all well_formed_item ps"
  then show "convertBatch lib ps = None"
    unfolding convertBatch_def by (rule convert_loop_not_well_formed)
qed

lemma convertBatch_SomeD:
  assumes "convertBatch lib ps = Some out"
  shows "length out = length ps
       \<and> (\<forall>i<length ps. \<forall>acc. convert_step lib i (ps ! i) acc = Some (acc @ [out ! i]))"
proof -
  from assms have "list_all well_formed_item ps"
    using convertBatch_None_iff [of lib ps] by auto
  from convert_loop_well_formed [OF this, of lib 0] obtain es where
    es: "length es = length ps" "\<forall>acc. convert_loop lib 0 ps acc = Some (acc @ es)"
      "\<forall>j<length ps. \<forall>acc. convert_step lib (0 + j) (ps ! j) acc = Some (acc @ [es ! j])"
    by blast
  from es(2) assms have "out = es" by (simp add: convertBatch_def)
  with es(1,3) show ?thesis by simp
qed

lemma convert_step_SomeD:
  assumes "convert_step lib i p acc = Some acc'"
  obtains d raw where "p = JObj d" "or_else (obj_get d ''mgrs'') (JStr []) = JStr raw"
proof -
  from assms have "well_formed_item p"
    using convert_step_not_well_formed [of p lib i acc] by auto
  then show thesis using that by (rule well_formed_itemD)
qed

lemma validate_empty: "validate_mgrs_format [] = (False, ''MGRS code is required'')"
  by (simp add: validate_mgrs_format_def)

lemma entry_meta:
  assumes "convert_step lib i (JObj d) [] = Some [e]"
  shows "out_name e = or_else (obj_get d ''name'') (JStr (''Ponto '' @ str_nat (i + 1)))
       \<and> out_color e = or_else (obj_get d ''color'') (JStr ''#3388ff'')
       \<and> out_category e = or_else (obj_get d ''category'') (JStr ''Ponto'')"
proof -
  from assms obtain raw where r: "or_else (obj_get d ''mgrs'') (JStr []) = JStr raw"
    by (rule convert_step_SomeD) simp
  from assms show ?thesis
    unfolding convert_step_def by (auto simp: r Let_def split: prod.splits bool.splits sum.splits if_splits)
qed

lemma entry_outcome:
  assumes "convert_step lib i p [] = Some [e]"
  shows "(out_lat e \<noteq> None \<and> out_lon e \<noteq> None \<and> out_error e = None)
       \<or> (out_lat e = None \<and> out_lon e = None \<and> out_error e \<noteq> None)"
proof -
  from assms obtain d raw where r: "p = JObj d" "or_else (obj_get d ''mgrs'') (JStr []) = JStr raw"
    by (rule convert_step_SomeD)
  from assms show ?thesis
    unfolding convert_step_def by (auto simp: r Let_def split: prod.splits bool.splits sum.splits if_splits)
qed

lemma entry_rejected:
  assumes "convert_step lib i (JObj d) [] = Some [e]"
    and "or_else (obj_get d ''mgrs'') (JStr []) = JStr raw"
    and "fst (validate_mgrs_format (strip raw)) = False"
  shows "out_mgrs e = strip raw
       \<and> out_error e = Some (snd (validate_mgrs_format (strip raw)))
       \<and> out_lat e = None \<and> out_lon e = None"
  using assms(1,3) unfolding convert_step_def
  by (auto simp: assms(2) Let_def validate_empty
           split: prod.splits bool.splits sum.splits if_splits)

lemma entry_accepted:
  assumes "or_else (obj_get d ''mgrs'') (JStr []) = JStr raw"
    and "strip raw \<noteq> []"
    and "validate_mgrs_format (strip raw) = (True, clean)"
  shows "convert_step lib i (JObj d) acc =
           Some (acc @
             [case try_toLatLon lib clean of
                Inr (lat, lon) \<Rightarrow>
                  \<lparr>out_name = or_else (obj_get d ''name'') (JStr (''Ponto '' @ str_nat (i + 1))),
                   out_mgrs = clean,
                   out_lat = Some (round8 lib lat), out_lon = Some (round8 lib lon),
                   out_error = None,
                   out_color = or_else (obj_get d ''color'') (JStr ''#3388ff''),
                   out_category = or_else (obj_get d ''category'') (JStr ''Ponto'')\<rparr>
              | Inl e \<Rightarrow>
                  \<lparr>out_name = or_else (obj_get d ''name'') (JStr (''Ponto '' @ str_nat (i + 1))),
                   out_mgrs = clean, out_lat = None, out_lon = None,
                   out_error = Some (''Falha ao converter MGRS: '' @ e),
                   out_color = or_else (obj_get d ''color'') (JStr ''#3388ff''),
                   out_category = or_else (obj_get d ''category'') (JStr ''Ponto'')\<rparr>])"
  unfolding convert_step_def
  by (simp add: assms Let_def split: sum.split prod.split)

lemma strip_unchanged:
  assumes "s \<noteq> []" "\<not> isspace (hd s)" "\<not> isspace (last s)"
  shows "strip s = s"
proof -
  have "dropWhile isspace s = s" using assms(1,2) by (cases s) simp_all
  moreover have "dropWhile isspace (rev s) = rev s"
    using assms(1,3) by (cases "rev s") (simp_all add: hd_rev [symmetric])
  ultimately show ?thesis by (simp add: strip_def)
qed

lemma or_else_default: "or_else JNull b = b" "or_else (JStr []) b = b"
  by (simp_all add: or_else_def)

lemma or_else_not_empty: "b \<noteq> JStr [] \<Longrightarrow> or_else a b \<noteq> JStr []"
  by (auto simp: or_else_def)

text \<open>
  Claim C1, as amended: the batch conversion preserves length and order on every list whose
  items are dictionaries with a \<^verbatim>\<open>mgrs\<close> that is a string, absent or falsy. The output then
  has one entry for each input, the entry at index \<open>i\<close> is the one that the loop body appends
  for the input at index \<open>i\<close>, and for a non-empty list the endpoint answers with that list,
  whatever the validation finds and whatever the conversion library does on any item. On
  every other list the loop raises, there is no output, and the endpoint answers the whole
  request with status 500.
\<close>

theorem convertBatch_length_order:
  "(list_all well_formed_item ps \<longrightarrow>
      (\<exists>out. convertBatch lib ps = Some out
         \<and> length out = length ps
         \<and> (\<forall>i<length ps. convert_step lib i (ps ! i) [] = Some [out ! i])
         \<and> (ps \<noteq> [] \<longrightarrow>
              (\<forall>d. map_of d ''points'' = Some (JArr ps) \<longrightarrow>
                   convert_mgrs lib (Some (JObj d)) = Inr out))))
   \<and> (\<not> list_all well_formed_item ps \<longrightarrow>
        convertBatch lib ps = None
        \<and> (\<forall>d. map_of d ''points'' = Some (JArr ps) \<longrightarrow>
               convert_mgrs lib (Some (JObj d)) = Inl (''Internal server error'', 500)))"
proof (intro conjI impI)
  assume wf: "list_all well_formed_item ps"
  then obtain out where out: "convertBatch lib ps = Some out"
    using convertBatch_None_iff [of lib ps] by auto
  from convertBatch_SomeD [OF out] have l: "length out = length ps"
    and s: "\<forall>i<length ps. convert_step lib i (ps ! i) [] = Some [out ! i]"
    by auto
  have "ps \<noteq> [] \<longrightarrow>
      (\<forall>d. map_of d ''points'' = Some (JArr ps) \<longrightarrow>
           convert_mgrs lib (Some (JObj d)) = Inr out)"
    using out by (auto simp: convert_mgrs_def or_else_def)
  with out l s show "\<exists>out. convertBatch lib ps = Some out
         \<and> length out = length ps
         \<and> (\<forall>i<length ps. convert_step lib i (ps ! i) [] = Some [out ! i])
         \<and> (ps \<noteq> [] \<longrightarrow>
              (\<forall>d. map_of d ''points'' = Some (JArr ps) \<longrightarrow>
                   convert_mgrs lib (Some (JObj d)) = Inr out))"
    by blast
next
  assume nwf: "\<not> list_all well_formed_item ps"
  then show n: "convertBatch lib ps = None" by (simp add: convertBatch_None_iff)
  from nwf have "ps \<noteq> []" by auto
  with n show "\<forall>d. map_of d ''points'' = Some (JArr ps) \<longrightarrow>
      convert_mgrs lib (Some (JObj d)) = Inl (''Internal server error'', 500)"
    by (auto simp: convert_mgrs_def or_else_def)
qed

text \<open>
  The claim as it was stated fails: a request whose second item has the number 123 as its
  code is answered with status 500 as a whole, although its first item alone is converted.
\<close>

theorem convertBatch_whole_request_counterexample:
  "convert_mgrs \<lparr>toLatLon = Inr \<circ> Pair 10 \<circ> real \<circ> length, round8 = id\<rparr> (Some (JObj [(''points'', JArr [JObj [(''mgrs'', JStr ''23KKP4014597230'')], JObj [(''mgrs'', JNum 123)]])])) = Inl (''Internal server error'', 500)
   \<and> convert_mgrs \<lparr>toLatLon = Inr \<circ> Pair 10 \<circ> real \<circ> length, round8 = id\<rparr> (Some (JObj [(''points'', JArr [JObj [(''mgrs'', JStr ''23KKP4014597230'')]])]))
       = Inr [\<lparr>out_name = JStr ''Ponto 1'', out_mgrs = ''23KKP4014597230'',
               out_lat = Some 10, out_lon = Some 15, out_error = None,
               out_color = JStr ''#3388ff'', out_category = JStr ''Ponto''\<rparr>]"
  by code_simp

theorem convertBatch_length_order_witness:
  "list_all well_formed_item [JObj [(''mgrs'', JStr ''23kkp4014597230''), (''color'', JStr [])],
      JObj [(''mgrs'', JStr '' 23K4014''), (''name'', JStr ''A'')]]
   \<and> [JObj [(''mgrs'', JStr ''23kkp4014597230''), (''color'', JStr [])],
      JObj [(''mgrs'', JStr '' 23K4014''), (''name'', JStr ''A'')]] \<noteq> []
   \<and> (1::nat) < length [JObj [(''mgrs'', JStr ''23kkp4014597230''), (''color'', JStr [])],
      JObj [(''mgrs'', JStr '' 23K4014''), (''name'', JStr ''A'')]]
   \<and> (\<exists>out. convertBatch \<lparr>toLatLon = Inr \<circ> Pair 10 \<circ> real \<circ> length, round8 = id\<rparr> [JObj [(''mgrs'', JStr ''23kkp4014597230''), (''color'', JStr [])],
      JObj [(''mgrs'', JStr '' 23K4014''), (''name'', JStr ''A'')]] = Some out
         \<and> length out = length [JObj [(''mgrs'', JStr ''23kkp4014597230''), (''color'', JStr [])],
      JObj [(''mgrs'', JStr '' 23K4014''), (''name'', JStr ''A'')]]
         \<and> convert_step \<lparr>toLatLon = Inr \<circ> Pair 10 \<circ> real \<circ> length, round8 = id\<rparr> 1 ([JObj [(''mgrs'', JStr ''23kkp4014597230''), (''color'', JStr [])],
      JObj [(''mgrs'', JStr '' 23K4014''), (''name'', JStr ''A'')]] ! 1) [] = Some [out ! 1]
         \<and> convert_mgrs \<lparr>toLatLon = Inr \<circ> Pair 10 \<circ> real \<circ> length, round8 = id\<rparr> (Some (JObj [(''points'', JArr [JObj [(''mgrs'', JStr ''23kkp4014597230''), (''color'', JStr [])],
      JObj [(''mgrs'', JStr '' 23K4014''), (''name'', JStr ''A'')]])])) = Inr out)
   \<and> \<not> list_all well_formed_item [JObj [(''mgrs'', JStr ''23KKP4014597230'')], JObj [(''mgrs'', JNum 123)]]
   \<and> convertBatch \<lparr>toLatLon = Inr \<circ> Pair 10 \<circ> real \<circ> length, round8 = id\<rparr> [JObj [(''mgrs'', JStr ''23KKP4014597230'')], JObj [(''mgrs'', JNum 123)]] = None"
proof -
  let ?L = "\<lparr>toLatLon = Inr \<circ> Pair 10 \<circ> real \<circ> length, round8 = id\<rparr>"
  let ?P = "[JObj [(''mgrs'', JStr ''23kkp4014597230''), (''color'', JStr [])],
      JObj [(''mgrs'', JStr '' 23K4014''), (''name'', JStr ''A'')]]"
  let ?Q = "[JObj [(''mgrs'', JStr ''23KKP4014597230'')], JObj [(''mgrs'', JNum 123)]]"
  have h: "list_all well_formed_item ?P" "?P \<noteq> []" "(1::nat) < length ?P"
    by (simp_all add: well_formed_item_def obj_get_def or_else_def)
  have g: "\<not> list_all well_formed_item ?Q"
    by (simp add: well_formed_item_def obj_get_def or_else_def)
  from convertBatch_length_order [of ?P ?L] h obtain out where
    o: "convertBatch ?L ?P = Some out" "length out = length ?P"
    and st: "\<forall>i<length ?P. convert_step ?L i (?P ! i) [] = Some [out ! i]"
    and ep: "\<forall>d. map_of d ''points'' = Some (JArr ?P) \<longrightarrow>
               convert_mgrs ?L (Some (JObj d)) = Inr out"
    by blast
  from ep have 1: "convert_mgrs ?L (Some (JObj [(''points'', JArr ?P)])) = Inr out"
    by simp
  from st h(3) have 2: "convert_step ?L 1 (?P ! 1) [] = Some [out ! 1]"
    by blast
  from convertBatch_length_order [of ?Q ?L] g have 3: "convertBatch ?L ?Q = None"
    by blast
  from o 1 2 3 h g show ?thesis by blast
qed

text \<open>
  Claim C4: every entry of the output carries either a latitude and a longitude and no
  error, or an error and neither coordinate; and its name, colour and category are those of
  the input at the same index, after the defaults are filled in. There is an output for
  every list of well-formed items, and it has the length of the input.
\<close>

theorem convertBatch_entry_invariant:
  "(list_all well_formed_item ps \<longrightarrow> convertBatch lib ps \<noteq> None)
   \<and> (\<forall>out. convertBatch lib ps = Some out \<longrightarrow>
        length out = length ps
        \<and> (\<forall>i<length ps.
             ((out_lat (out ! i) \<noteq> None \<and> out_lon (out ! i) \<noteq> None \<and> out_error (out ! i) = None)
              \<or> (out_lat (out ! i) = None \<and> out_lon (out ! i) = None \<and> out_error (out ! i) \<noteq> None))
             \<and> (\<exists>d. ps ! i = JObj d
                  \<and> out_name (out ! i)
                      = or_else (obj_get d ''name'') (JStr (''Ponto '' @ str_nat (i + 1)))
                  \<and> out_color (out ! i) = or_else (obj_get d ''color'') (JStr ''#3388ff'')
                  \<and> out_category (out ! i) = or_else (obj_get d ''category'') (JStr ''Ponto''))))"
proof (intro conjI allI impI)
  assume "list_all well_formed_item ps"
  then show "convertBatch lib ps \<noteq> None" by (simp add: convertBatch_None_iff)
next
  fix out assume "convertBatch lib ps = Some out"
  then show "length out = length ps" using convertBatch_SomeD by blast
next
  fix out i assume out: "convertBatch lib ps = Some out" and i: "i < length ps"
  from convertBatch_SomeD [OF out] i
  have e: "convert_step lib i (ps ! i) [] = Some [out ! i]" by auto
  from entry_outcome [OF e]
  show "(out_lat (out ! i) \<noteq> None \<and> out_lon (out ! i) \<noteq> None \<and> out_error (out ! i) = None)
      \<or> (out_lat (out ! i) = None \<and> out_lon (out ! i) = None \<and> out_error (out ! i) \<noteq> None)" .
  from e obtain d where d: "ps ! i = JObj d" by (rule convert_step_SomeD)
  from entry_meta [OF e [unfolded d]] d
  show "\<exists>d. ps ! i = JObj d
          \<and> out_name (out ! i) = or_else (obj_get d ''name'') (JStr (''Ponto '' @ str_nat (i + 1)))
          \<and> out_color (out ! i) = or_else (obj_get d ''color'') (JStr ''#3388ff'')
          \<and> out_category (out ! i) = or_else (obj_get d ''category'') (JStr ''Ponto'')"
    by blast
qed

theorem convertBatch_entry_invariant_witness:
  "list_all well_formed_item [JObj [(''mgrs'', JStr ''23kkp4014597230''), (''color'', JStr [])],
      JObj [(''mgrs'', JStr '' 23K4014''), (''name'', JStr ''A'')]]
   \<and> (0::nat) < length [JObj [(''mgrs'', JStr ''23kkp4014597230''), (''color'', JStr [])],
      JObj [(''mgrs'', JStr '' 23K4014''), (''name'', JStr ''A'')]]
   \<and> (\<exists>out. convertBatch \<lparr>toLatLon = Inr \<circ> Pair 10 \<circ> real \<circ> length, round8 = id\<rparr> [JObj [(''mgrs'', JStr ''23kkp4014597230''), (''color'', JStr [])],
      JObj [(''mgrs'', JStr '' 23K4014''), (''name'', JStr ''A'')]] = Some out
         \<and> length out = length [JObj [(''mgrs'', JStr ''23kkp4014597230''), (''color'', JStr [])],
      JObj [(''mgrs'', JStr '' 23K4014''), (''name'', JStr ''A'')]]
         \<and> out_lat (out ! 0) \<noteq> None \<and> out_lon (out ! 0) \<noteq> None \<and> out_error (out ! 0) = None
         \<and> out_name (out ! 0) = JStr ''Ponto 1''
         \<and> out_color (out ! 0) = JStr ''#3388ff'')"
proof -
  let ?L = "\<lparr>toLatLon = Inr \<circ> Pair 10 \<circ> real \<circ> length, round8 = id\<rparr>"
  let ?P = "[JObj [(''mgrs'', JStr ''23kkp4014597230''), (''color'', JStr [])],
      JObj [(''mgrs'', JStr '' 23K4014''), (''name'', JStr ''A'')]]"
  have h: "list_all well_formed_item ?P" "(0::nat) < length ?P"
    by (simp_all add: well_formed_item_def obj_get_def or_else_def)
  from convertBatch_entry_invariant [of ?P ?L] h obtain out where
    out: "convertBatch ?L ?P = Some out"
    by blast
  have v: "convertBatch ?L ?P = Some
      [\<lparr>out_name = JStr ''Ponto 1'', out_mgrs = ''23KKP4014597230'',
         out_lat = Some 10, out_lon = Some 15, out_error = None,
         out_color = JStr ''#3388ff'', out_category = JStr ''Ponto''\<rparr>,
       \<lparr>out_name = JStr ''A'', out_mgrs = ''23K4014'', out_lat = None, out_lon = None,
         out_error = Some ''Invalid MGRS format. Expected format: 23KKP4014597230'',
         out_color = JStr ''#3388ff'', out_category = JStr ''Ponto''\<rparr>]"
    by code_simp
  from convertBatch_entry_invariant [of ?P ?L] out have "length out = length ?P" by blast
  with out v h show ?thesis by auto
qed

text \<open>
  Claim C10: a name, colour or category that is present but empty gets the default of an
  absent one (the name made from the position, \<open>#3388ff\<close>, \<open>Ponto\<close>), and none of the
  three is ever the empty string in the output. There is an output for every list of
  well-formed items.
\<close>

theorem convertBatch_empty_string_defaults:
  "(list_all well_formed_item ps \<longrightarrow> convertBatch lib ps \<noteq> None)
   \<and> (\<forall>out. convertBatch lib ps = Some out \<longrightarrow>
        (\<forall>i<length ps. \<exists>d. ps ! i = JObj d
           \<and> (obj_get d ''name'' = JNull \<or> obj_get d ''name'' = JStr [] \<longrightarrow>
                out_name (out ! i) = JStr (''Ponto '' @ str_nat (i + 1)))
           \<and> (obj_get d ''color'' = JNull \<or> obj_get d ''color'' = JStr [] \<longrightarrow>
                out_color (out ! i) = JStr ''#3388ff'')
           \<and> (obj_get d ''category'' = JNull \<or> obj_get d ''category'' = JStr [] \<longrightarrow>
                out_category (out ! i) = JStr ''Ponto'')
           \<and> out_name (out ! i) \<noteq> JStr []
           \<and> out_color (out ! i) \<noteq> JStr []
           \<and> out_category (out ! i) \<noteq> JStr []))"
proof (intro conjI allI impI)
  assume "list_all well_formed_item ps"
  then show "convertBatch lib ps \<noteq> None" by (simp add: convertBatch_None_iff)
next
  fix out i assume out: "convertBatch lib ps = Some out" and i: "i < length ps"
  from convertBatch_SomeD [OF out] i
  have e: "convert_step lib i (ps ! i) [] = Some [out ! i]" by auto
  from e obtain d where d: "ps ! i = JObj d" by (rule convert_step_SomeD)
  note m = entry_meta [OF e [unfolded d]]
  have 1: "obj_get d ''name'' = JNull \<or> obj_get d ''name'' = JStr [] \<longrightarrow>
        out_name (out ! i) = JStr (''Ponto '' @ str_nat (i + 1))"
    using m or_else_default by metis
  have 2: "obj_get d ''color'' = JNull \<or> obj_get d ''color'' = JStr [] \<longrightarrow>
        out_color (out ! i) = JStr ''#3388ff''"
    using m or_else_default by metis
  have 3: "obj_get d ''category'' = JNull \<or> obj_get d ''category'' = JStr [] \<longrightarrow>
        out_category (out ! i) = JStr ''Ponto''"
    using m or_else_default by metis
  have 4: "out_name (out ! i) \<noteq> JStr []"
    using m or_else_not_empty [of "JStr (''Ponto '' @ str_nat (i + 1))"] by simp
  have 5: "out_color (out ! i) \<noteq> JStr []"
    using m or_else_not_empty [of "JStr ''#3388ff''"] by simp
  have 6: "out_category (out ! i) \<noteq> JStr []"
    using m or_else_not_empty [of "JStr ''Ponto''"] by simp
  from d 1 2 3 4 5 6
  show "\<exists>d. ps ! i = JObj d
           \<and> (obj_get d ''name'' = JNull \<or> obj_get d ''name'' = JStr [] \<longrightarrow>
                out_name (out ! i) = JStr (''Ponto '' @ str_nat (i + 1)))
           \<and> (obj_get d ''color'' = JNull \<or> obj_get d ''color'' = JStr [] \<longrightarrow>
                out_color (out ! i) = JStr ''#3388ff'')
           \<and> (obj_get d ''category'' = JNull \<or> obj_get d ''category'' = JStr [] \<longrightarrow>
                out_category (out ! i) = JStr ''Ponto'')
           \<and> out_name (out ! i) \<noteq> JStr []
           \<and> out_color (out ! i) \<noteq> JStr []
           \<and> out_category (out ! i) \<noteq> JStr []"
    by blast
qed

theorem convertBatch_empty_string_defaults_witness:
  "list_all well_formed_item [JObj [(''mgrs'', JStr ''23kkp4014597230''), (''name'', JStr []), (''color'', JStr []),
       (''category'', JStr [])]]
   \<and> (0::nat) < length [JObj [(''mgrs'', JStr ''23kkp4014597230''), (''name'', JStr []), (''color'', JStr []),
       (''category'', JStr [])]]
   \<and> obj_get [(''mgrs'', JStr ''23kkp4014597230''), (''name'', JStr []), (''color'', JStr []),
       (''category'', JStr [])] ''name'' = JStr []
   \<and> obj_get [(''mgrs'', JStr ''23kkp4014597230''), (''name'', JStr []), (''color'', JStr []),
       (''category'', JStr [])] ''color'' = JStr []
   \<and> obj_get [(''mgrs'', JStr ''23kkp4014597230''), (''name'', JStr []), (''color'', JStr []),
       (''category'', JStr [])] ''category'' = JStr []
   \<and> (\<exists>out. convertBatch \<lparr>toLatLon = Inr \<circ> Pair 10 \<circ> real \<circ> length, round8 = id\<rparr> [JObj [(''mgrs'', JStr ''23kkp4014597230''), (''name'', JStr []), (''color'', JStr []),
       (''category'', JStr [])]] = Some out
         \<and> out_name (out ! 0) = JStr ''Ponto 1''
         \<and> out_color (out ! 0) = JStr ''#3388ff''
         \<and> out_category (out ! 0) = JStr ''Ponto'')"
proof -
  let ?L = "\<lparr>toLatLon = Inr \<circ> Pair 10 \<circ> real \<circ> length, round8 = id\<rparr>"
  let ?D = "[(''mgrs'', JStr ''23kkp4014597230''), (''name'', JStr []), (''color'', JStr []),
       (''category'', JStr [])]"
  have h: "list_all well_formed_item [JObj ?D]" "(0::nat) < length [JObj ?D]"
    "obj_get ?D ''name'' = JStr []" "obj_get ?D ''color'' = JStr []"
    "obj_get ?D ''category'' = JStr []"
    by (simp_all add: well_formed_item_def obj_get_def or_else_def)
  have n: "''Ponto '' @ str_nat (0 + 1) = ''Ponto 1''" by code_simp
  from convertBatch_empty_string_defaults [of "[JObj ?D]" ?L] h(1) obtain out where
    out: "convertBatch ?L [JObj ?D] = Some out"
    by blast
  from convertBatch_empty_string_defaults [of "[JObj ?D]" ?L] out h(2) obtain d where
    d: "[JObj ?D] ! 0 = JObj d"
    and r: "obj_get d ''name'' = JNull \<or> obj_get d ''name'' = JStr [] \<longrightarrow>
                out_name (out ! 0) = JStr (''Ponto '' @ str_nat (0 + 1))"
      "obj_get d ''color'' = JNull \<or> obj_get d ''color'' = JStr [] \<longrightarrow>
                out_color (out ! 0) = JStr ''#3388ff''"
      "obj_get d ''category'' = JNull \<or> obj_get d ''category'' = JStr [] \<longrightarrow>
                out_category (out ! 0) = JStr ''Ponto''"
    by blast
  from d have "d = ?D" by simp
  with r h(3,4,5) n have "out_name (out ! 0) = JStr ''Ponto 1''"
    "out_color (out ! 0) = JStr ''#3388ff''" "out_category (out ! 0) = JStr ''Ponto''"
    by simp_all
  with out h show ?thesis by blast
qed

text \<open>
  Claim C5, as amended: for an item whose code is rejected by the validation, the
  \<^verbatim>\<open>mgrs\<close> field of its entry is the submitted code with the whitespace at both ends
  removed (whitespace inside and the case of the letters are kept; an absent or falsy code
  counts as the empty string), and the error is the reason that the validation gives for
  that stripped code. The field equals the submitted code itself when that code neither
  starts nor ends with whitespace.
\<close>

theorem convertBatch_rejected_mgrs_stripped:
  assumes "convertBatch lib ps = Some out" "i < length ps" "ps ! i = JObj d"
    and "or_else (obj_get d ''mgrs'') (JStr []) = JStr raw"
    and "fst (validate_mgrs_format (strip raw)) = False"
  shows "out_mgrs (out ! i) = strip raw
       \<and> out_error (out ! i) = Some (snd (validate_mgrs_format (strip raw)))
       \<and> (raw \<noteq> [] \<and> \<not> isspace (hd raw) \<and> \<not> isspace (last raw) \<longrightarrow>
            out_mgrs (out ! i) = raw)"
proof -
  from convertBatch_SomeD [OF assms(1)] assms(2)
  have e: "convert_step lib i (ps ! i) [] = Some [out ! i]" by auto
  note f = entry_rejected [OF e [unfolded assms(3)] assms(4,5)]
  have "raw \<noteq> [] \<and> \<not> isspace (hd raw) \<and> \<not> isspace (last raw) \<longrightarrow>
            out_mgrs (out ! i) = raw"
    using f strip_unchanged [of raw] by simp
  with f show ?thesis by blast
qed

text \<open>
  The claim as it was stated fails: the code \<open>" 23K4014"\<close>, with a space in front, is
  rejected, and the entry carries the code without that space.
\<close>

theorem convertBatch_rejected_mgrs_counterexample:
  "fst (validate_mgrs_format '' 23K4014'') = False
   \<and> convertBatch \<lparr>toLatLon = Inl, round8 = id\<rparr> [JObj [(''mgrs'', JStr '' 23K4014'')]]
       = Some [\<lparr>out_name = JStr ''Ponto 1'', out_mgrs = ''23K4014'',
                 out_lat = None, out_lon = None,
                 out_error = Some ''Invalid MGRS format. Expected format: 23KKP4014597230'',
                 out_color = JStr ''#3388ff'', out_category = JStr ''Ponto''\<rparr>]
   \<and> ''23K4014'' \<noteq> '' 23K4014''"
  by code_simp

theorem convertBatch_rejected_mgrs_stripped_witness:
  "convertBatch \<lparr>toLatLon = Inr \<circ> Pair 10 \<circ> real \<circ> length, round8 = id\<rparr> [JObj [(''mgrs'', JStr '' 23K 4014 '')]]
     = Some [\<lparr>out_name = JStr ''Ponto 1'', out_mgrs = ''23K 4014'',
               out_lat = None, out_lon = None,
               out_error = Some ''Invalid MGRS format. Expected format: 23KKP4014597230'',
               out_color = JStr ''#3388ff'', out_category = JStr ''Ponto''\<rparr>]
   \<and> (0::nat) < length [JObj [(''mgrs'', JStr '' 23K 4014 '')]]
   \<and> or_else (obj_get [(''mgrs'', JStr '' 23K 4014 '')] ''mgrs'') (JStr []) = JStr '' 23K 4014 ''
   \<and> fst (validate_mgrs_format (strip '' 23K 4014 '')) = False
   \<and> strip '' 23K 4014 '' = ''23K 4014''
   \<and> snd (validate_mgrs_format (strip '' 23K 4014 ''))
       = ''Invalid MGRS format. Expected format: 23KKP4014597230''"
proof -
  let ?L = "\<lparr>toLatLon = Inr \<circ> Pair 10 \<circ> real \<circ> length, round8 = id\<rparr>"
  let ?d = "[(''mgrs'', JStr '' 23K 4014 '')]"
  have h1: "convertBatch ?L [JObj ?d]
     = Some [\<lparr>out_name = JStr ''Ponto 1'', out_mgrs = ''23K 4014'',
               out_lat = None, out_lon = None,
               out_error = Some ''Invalid MGRS format. Expected format: 23KKP4014597230'',
               out_color = JStr ''#3388ff'', out_category = JStr ''Ponto''\<rparr>]"
    by code_simp
  have h2: "(0::nat) < length [JObj ?d]" by simp
  have h3: "[JObj ?d] ! 0 = JObj ?d" by simp
  have h4: "or_else (obj_get ?d ''mgrs'') (JStr []) = JStr '' 23K 4014 ''"
    by (simp add: obj_get_def or_else_def)
  have h5: "fst (validate_mgrs_format (strip '' 23K 4014 '')) = False"
    by code_simp
  from convertBatch_rejected_mgrs_stripped [OF h1 h2 h3 h4 h5]
  have "''23K 4014'' = strip '' 23K 4014 ''"
    "Some ''Invalid MGRS format. Expected format: 23KKP4014597230''
       = Some (snd (validate_mgrs_format (strip '' 23K 4014 '')))"
    by simp_all
  with h1 h2 h4 h5 show ?thesis by simp
qed

lemma band_range_not_decimal: "in_class (Range CHR ''A'' CHR ''Z'') c \<Longrightarrow> \<not> isdecimal c"
  by (simp add: isdecimal_def)

lemma digit_prefix_unique:
  assumes "z @ b # r = z' @ b' # r'" "list_all isdecimal z" "list_all isdecimal z'"
    "\<not> isdecimal b" "\<not> isdecimal b'"
  shows "z = z' \<and> b = b'"
proof -
  have "takeWhile isdecimal (z @ b # r) = z" "takeWhile isdecimal (z' @ b' # r') = z'"
    using assms(2-5) by (simp_all add: takeWhile_tail list_all_iff)
  with assms(1) have "z = z'" by simp
  with assms(1) show ?thesis by simp
qed

lemma re_match_band:
  assumes "re_match pattern (z @ b # r)" "list_all isdecimal z" "\<not> isdecimal b"
  shows "in_class (Range CHR ''C'' CHR ''X'') b"
proof -
  from re_match_patternD [OF assms(1)] obtain z' b' r' where
    e: "z @ b # r = z' @ b' # r'" and z': "list_all isdecimal z'"
    and b': "in_class (Range CHR ''C'' CHR ''X'') b'"
    by blast
  have "\<not> isdecimal b'" using b' by (intro band_range_not_decimal band_CX_is_letter)
  from digit_prefix_unique [OF e assms(2) z' assms(3) this] b' show ?thesis by blast
qed

lemma validate_no_match:
  "s \<noteq> [] \<Longrightarrow> \<not> re_match pattern (re_sub_spaces (upper s)) \<Longrightarrow>
   validate_mgrs_format s = (False, ''Invalid MGRS format. Expected format: 23KKP4014597230'')"
  by (simp add: validate_mgrs_format_def)

lemma shape_strip_unchanged:
  assumes "z \<noteq> []" "list_all isdecimal z" "ds \<noteq> []" "list_all isdecimal ds"
  shows "strip (z @ b # sq @ ds) = z @ b # sq @ ds"
proof -
  have "isdecimal (hd z)" "isdecimal (last ds)"
    using assms by (simp_all add: list_all_iff)
  then have "\<not> isspace (hd z)" "\<not> isspace (last ds)"
    using digit_fixed by blast+
  moreover have "hd (z @ b # sq @ ds) = hd z" "last (z @ b # sq @ ds) = last ds"
    using assms(1,3) by simp_all
  ultimately show ?thesis by (intro strip_unchanged) simp_all
qed

text \<open>
  Claim C3, as amended: the band letters I and O are not rejected. For a code made of one
  or two digits, a band letter A-Z, two letters A-Z and 2, 4, 6, 8 or 10 digits,
  \<^verbatim>\<open>validate_mgrs_format\<close> returns the code itself as valid when the band letter lies in
  C-X, and the format error when it lies outside (A, B, Y, Z). I and O lie in C-X, so such
  a code is valid. It then goes on to the conversion: the entry that the loop body appends
  for an item with such a code is the one made from what the conversion library returns or
  raises on that code.
\<close>

theorem band_letter_I_O_accepted:
  assumes "1 \<le> length z" "length z \<le> 2" "list_all isdecimal z"
    and "in_class (Range CHR ''A'' CHR ''Z'') b"
    and "length sq = 2" "list_all (in_class (Range CHR ''A'' CHR ''Z'')) sq"
    and "list_all isdecimal ds" "length ds \<in> set valid_lengths"
  shows "validate_mgrs_format (z @ b # sq @ ds) =
           (if in_class (Range CHR ''C'' CHR ''X'') b then (True, z @ b # sq @ ds)
            else (False, ''Invalid MGRS format. Expected format: 23KKP4014597230''))
         \<and> (b = CHR ''I'' \<or> b = CHR ''O'' \<longrightarrow>
              validate_mgrs_format (z @ b # sq @ ds) = (True, z @ b # sq @ ds))
         \<and> (in_class (Range CHR ''C'' CHR ''X'') b \<longrightarrow>
              (\<forall>d acc. or_else (obj_get d ''mgrs'') (JStr []) = JStr (z @ b # sq @ ds) \<longrightarrow>
                 convert_step lib i (JObj d) acc = Some (acc @ [case try_toLatLon lib (z @ b # sq @ ds) of
                     Inr (lat, lon) \<Rightarrow>
                       \<lparr>out_name = or_else (obj_get d ''name'') (JStr (''Ponto '' @ str_nat (i + 1))),
                        out_mgrs = z @ b # sq @ ds,
                        out_lat = Some (round8 lib lat), out_lon = Some (round8 lib lon),
                        out_error = None,
                        out_color = or_else (obj_get d ''color'') (JStr ''#3388ff''),
                        out_category = or_else (obj_get d ''category'') (JStr ''Ponto'')\<rparr>
                   | Inl e \<Rightarrow>
                       \<lparr>out_name = or_else (obj_get d ''name'') (JStr (''Ponto '' @ str_nat (i + 1))),
                        out_mgrs = z @ b # sq @ ds, out_lat = None, out_lon = None,
                        out_error = Some (''Falha ao converter MGRS: '' @ e),
                        out_color = or_else (obj_get d ''color'') (JStr ''#3388ff''),
                        out_category = or_else (obj_get d ''category'') (JStr ''Ponto'')\<rparr>])))"
proof -
  let ?w = "z @ b # sq @ ds"
  have clean: "re_sub_spaces (upper ?w) = ?w"
    using assms(3,4,6,7) by (rule shape_clean_fixed)
  have len: "2 \<le> length ds" "length ds \<le> 10" "length ds mod 2 = 0"
    using assms(8) by (auto simp: valid_lengths_def)
  have 1: "validate_mgrs_format ?w =
           (if in_class (Range CHR ''C'' CHR ''X'') b then (True, ?w)
            else (False, ''Invalid MGRS format. Expected format: 23KKP4014597230''))"
  proof (cases "in_class (Range CHR ''C'' CHR ''X'') b")
    case True
    have m: "re_match pattern ?w"
      using assms(1,2,3) True assms(5,6) len(1,2) assms(7) by (rule re_match_patternI)
    have "ds \<noteq> []" using len(1) by auto
    from coord_start_shape [OF assms(1,2,5,6) this assms(7), of b "[]"]
    have "coord_start_loop 0 ?w = length z + 3" by simp
    then have part: "drop (coord_start_loop 0 ?w) ?w = ds"
      using assms(5) by simp
    have "validate_mgrs_format ?w = (True, ?w)"
      unfolding validate_True_iff clean part using m len(3) assms(8) by simp
    with True show ?thesis by (simp only: if_True)
  next
    case False
    have "\<not> isdecimal b" using assms(4) by (rule band_range_not_decimal)
    with re_match_band [of z b "sq @ ds"] assms(3) False
    have "\<not> re_match pattern (re_sub_spaces (upper ?w))"
      unfolding clean by blast
    moreover have "?w \<noteq> []" by simp
    ultimately have "validate_mgrs_format ?w
        = (False, ''Invalid MGRS format. Expected format: 23KKP4014597230'')"
      by (intro validate_no_match)
    with False show ?thesis by (simp only: if_False)
  qed
  have 2: "b = CHR ''I'' \<or> b = CHR ''O'' \<longrightarrow> in_class (Range CHR ''C'' CHR ''X'') b"
    by auto
  have 3: "in_class (Range CHR ''C'' CHR ''X'') b \<longrightarrow>
              (\<forall>d acc. or_else (obj_get d ''mgrs'') (JStr []) = JStr (z @ b # sq @ ds) \<longrightarrow>
                 convert_step lib i (JObj d) acc = Some (acc @ [case try_toLatLon lib (z @ b # sq @ ds) of
                     Inr (lat, lon) \<Rightarrow>
                       \<lparr>out_name = or_else (obj_get d ''name'') (JStr (''Ponto '' @ str_nat (i + 1))),
                        out_mgrs = z @ b # sq @ ds,
                        out_lat = Some (round8 lib lat), out_lon = Some (round8 lib lon),
                        out_error = None,
                        out_color = or_else (obj_get d ''color'') (JStr ''#3388ff''),
                        out_category = or_else (obj_get d ''category'') (JStr ''Ponto'')\<rparr>
                   | Inl e \<Rightarrow>
                       \<lparr>out_name = or_else (obj_get d ''name'') (JStr (''Ponto '' @ str_nat (i + 1))),
                        out_mgrs = z @ b # sq @ ds, out_lat = None, out_lon = None,
                        out_error = Some (''Falha ao converter MGRS: '' @ e),
                        out_color = or_else (obj_get d ''color'') (JStr ''#3388ff''),
                        out_category = or_else (obj_get d ''category'') (JStr ''Ponto'')\<rparr>]))"
  proof (intro impI allI)
    fix d acc
    assume cx: "in_class (Range CHR ''C'' CHR ''X'') b"
      and r: "or_else (obj_get d ''mgrs'') (JStr []) = JStr (z @ b # sq @ ds)"
    have "z \<noteq> []" "ds \<noteq> []" using assms(1) len(1) by auto
    then have s: "strip ?w = ?w"
      using assms(3,7) by (intro shape_strip_unchanged)
    have v: "validate_mgrs_format (strip ?w) = (True, ?w)"
      unfolding s using 1 cx by simp
    have "strip ?w \<noteq> []" unfolding s by simp
    from entry_accepted [OF r this v]
    show "convert_step lib i (JObj d) acc = Some (acc @ [case try_toLatLon lib (z @ b # sq @ ds) of
                     Inr (lat, lon) \<Rightarrow>
                       \<lparr>out_name = or_else (obj_get d ''name'') (JStr (''Ponto '' @ str_nat (i + 1))),
                        out_mgrs = z @ b # sq @ ds,
                        out_lat = Some (round8 lib lat), out_lon = Some (round8 lib lon),
                        out_error = None,
                        out_color = or_else (obj_get d ''color'') (JStr ''#3388ff''),
                        out_category = or_else (obj_get d ''category'') (JStr ''Ponto'')\<rparr>
                   | Inl e \<Rightarrow>
                       \<lparr>out_name = or_else (obj_get d ''name'') (JStr (''Ponto '' @ str_nat (i + 1))),
                        out_mgrs = z @ b # sq @ ds, out_lat = None, out_lon = None,
                        out_error = Some (''Falha ao converter MGRS: '' @ e),
                        out_color = or_else (obj_get d ''color'') (JStr ''#3388ff''),
                        out_category = or_else (obj_get d ''category'') (JStr ''Ponto'')\<rparr>])" .
  qed
  from 1 2 3 show ?thesis by presburger
qed

text \<open>
  The claim as it was stated fails: a code with band letter I is accepted, and the entry of
  its item carries the coordinates that the conversion library returns for it.
\<close>

theorem band_letter_I_counterexample:
  "validate_mgrs_format ''23IKP4014597230'' = (True, ''23IKP4014597230'')
   \<and> convertBatch \<lparr>toLatLon = Inr \<circ> Pair 10 \<circ> real \<circ> length, round8 = id\<rparr> [JObj [(''mgrs'', JStr ''23IKP4014597230'')]]
       = Some [\<lparr>out_name = JStr ''Ponto 1'', out_mgrs = ''23IKP4014597230'',
                 out_lat = Some 10, out_lon = Some 15, out_error = None,
                 out_color = JStr ''#3388ff'', out_category = JStr ''Ponto''\<rparr>]"
  by code_simp

theorem band_letter_I_O_accepted_witness:
  "1 \<le> length ''23'' \<and> length ''23'' \<le> 2 \<and> list_all isdecimal ''23''
   \<and> in_class (Range CHR ''A'' CHR ''Z'') CHR ''O''
   \<and> length ''KP'' = 2 \<and> list_all (in_class (Range CHR ''A'' CHR ''Z'')) ''KP''
   \<and> list_all isdecimal ''4014597230'' \<and> length ''4014597230'' \<in> set valid_lengths
   \<and> in_class (Range CHR ''C'' CHR ''X'') CHR ''O''
   \<and> or_else (obj_get [(''mgrs'', JStr ''23OKP4014597230'')] ''mgrs'') (JStr [])
       = JStr ''23OKP4014597230''
   \<and> validate_mgrs_format ''23OKP4014597230'' = (True, ''23OKP4014597230'')
   \<and> convert_step \<lparr>toLatLon = Inr \<circ> Pair 10 \<circ> real \<circ> length, round8 = id\<rparr> 0 (JObj [(''mgrs'', JStr ''23OKP4014597230'')]) []
       = Some [\<lparr>out_name = JStr ''Ponto 1'', out_mgrs = ''23OKP4014597230'',
                 out_lat = Some 10, out_lon = Some 15, out_error = None,
                 out_color = JStr ''#3388ff'', out_category = JStr ''Ponto''\<rparr>]"
proof -
  let ?L = "\<lparr>toLatLon = Inr \<circ> Pair 10 \<circ> real \<circ> length, round8 = id\<rparr>"
  have h: "1 \<le> length ''23''" "length ''23'' \<le> 2" "list_all isdecimal ''23''"
    "in_class (Range CHR ''A'' CHR ''Z'') CHR ''O''"
    "length ''KP'' = 2" "list_all (in_class (Range CHR ''A'' CHR ''Z'')) ''KP''"
    "list_all isdecimal ''4014597230''" "length ''4014597230'' \<in> set valid_lengths"
    by (simp_all add: isdecimal_def valid_lengths_def)
  have g: "in_class (Range CHR ''C'' CHR ''X'') CHR ''O''"
    "or_else (obj_get [(''mgrs'', JStr ''23OKP4014597230'')] ''mgrs'') (JStr [])
       = JStr ''23OKP4014597230''"
    by (simp_all add: obj_get_def or_else_def)
  have t: "try_toLatLon ?L ''23OKP4014597230'' = Inr (10, 15)"
    by (simp add: try_toLatLon_def)
  have n: "''Ponto '' @ str_nat (0 + 1) = ''Ponto 1''" by code_simp
  from band_letter_I_O_accepted [OF h, of ?L 0] g
  have "validate_mgrs_format ''23OKP4014597230'' = (True, ''23OKP4014597230'')"
    and "convert_step ?L 0 (JObj [(''mgrs'', JStr ''23OKP4014597230'')]) []
       = Some [\<lparr>out_name = JStr ''Ponto 1'', out_mgrs = ''23OKP4014597230'',
                 out_lat = Some 10, out_lon = Some 15, out_error = None,
                 out_color = JStr ''#3388ff'', out_category = JStr ''Ponto''\<rparr>]"
    using t n by (simp_all add: obj_get_def or_else_def)
  with h g show ?thesis by simp
qed

section \<open>Properties of the export\<close>

lemma replace_append: "replace c r (xs @ ys) = replace c r xs @ replace c r ys"
  by (simp add: replace_def)

lemma replace_Cons: "replace c r (x # xs) = (if x = c then r else [x]) @ replace c r xs"
  by (simp add: replace_def)

lemma replace_Nil: "replace c r [] = []"
  by (simp add: replace_def)

lemma escape_is_entity_form:
  "replace CHR ''>'' ''&gt;'' (replace CHR ''<'' ''&lt;'' (replace CHR ''&'' ''&amp;'' s))
     = concat (map entity_form s)"
  by (induction s) (simp_all add: replace_Cons replace_Nil replace_append entity_form_def)

lemma no_raw_markup_entity:
  "no_raw_markup rest \<Longrightarrow> no_raw_markup (entity_form c @ rest)"
  by (simp add: entity_form_def)

lemma no_raw_markup_concat: "no_raw_markup (concat (map entity_form s))"
  by (induction s) (simp_all add: no_raw_markup_entity del: no_raw_markup.simps(2))

lemma marker_name_escaped:
  "marker_name i p = concat (map entity_form (get_or (ex_name p) (''Ponto '' @ str_nat (i + 1))))
   \<and> no_raw_markup (marker_name i p)"
  unfolding marker_name_def escape_is_entity_form using no_raw_markup_concat by simp


lemma export_step_skip:
  "ex_lat p = None \<or> ex_lon p = None \<Longrightarrow> export_step rt i p st = st"
  by (auto simp: export_step_def Let_def split: option.splits)

lemma export_step_emit:
  assumes "ex_lat p \<noteq> None" "ex_lon p \<noteq> None"
  shows "\<exists>rest. export_step rt i p st =
           (fst st @ [''<Placemark><name>'' @ marker_name i p @ ''</name>'' @ rest], snd st @ [p])"
proof -
  from assms obtain lat lon where "ex_lat p = Some lat" "ex_lon p = Some lon" by auto
  then show ?thesis
    by (simp add: export_step_def Let_def del: append_assoc)
qed

lemma export_step_cases:
  "export_step rt i p st = st
   \<or> (ex_lat p \<noteq> None \<and> ex_lon p \<noteq> None
      \<and> (\<exists>rest. export_step rt i p st =
           (fst st @ [''<Placemark><name>'' @ marker_name i p @ ''</name>'' @ rest], snd st @ [p])))"
proof (cases "ex_lat p = None \<or> ex_lon p = None")
  case True
  then have "export_step rt i p st = st" by (rule export_step_skip)
  then show ?thesis by (rule disjI1)
next
  case False
  then have c: "ex_lat p \<noteq> None" "ex_lon p \<noteq> None" by simp_all
  from export_step_emit [OF c, of rt i st] c show ?thesis by (intro disjI2 conjI)
qed


lemma export_step_mono: "set (fst st) \<subseteq> set (fst (export_step rt i p st))"
  using export_step_cases [of rt i p st] by auto

lemma export_loop_mono: "set (fst st) \<subseteq> set (fst (export_loop rt i ps st))"
proof (induction ps arbitrary: i st)
  case Nil
  show ?case by simp
next
  case (Cons p ps)
  from export_step_mono [of st rt i p] Cons [of "export_step rt i p st" "Suc i"]
  show ?case by auto
qed

lemma export_loop_has_marker:
  assumes "j < length ps" "ex_lat (ps ! j) \<noteq> None" "ex_lon (ps ! j) \<noteq> None"
  shows "\<exists>rest. ''<Placemark><name>'' @ marker_name (i + j) (ps ! j) @ ''</name>'' @ rest
           \<in> set (fst (export_loop rt i ps st))"
  using assms
proof (induction ps arbitrary: i j st)
  case Nil
  then show ?case by simp
next
  case (Cons p ps)
  show ?case
  proof (cases j)
    case 0
    with Cons.prems obtain rest where
      "export_step rt i p st =
         (fst st @ [''<Placemark><name>'' @ marker_name i p @ ''</name>'' @ rest], snd st @ [p])"
      using export_step_emit [of p rt i st] by auto
    then have "''<Placemark><name>'' @ marker_name i p @ ''</name>'' @ rest
        \<in> set (fst (export_step rt i p st))"
      by simp
    with export_loop_mono [of "export_step rt i p st" rt "Suc i" ps]
    have "''<Placemark><name>'' @ marker_name i p @ ''</name>'' @ rest
        \<in> set (fst (export_loop rt i (p # ps) st))"
      by auto
    with 0 show ?thesis by auto
  next
    case (Suc k)
    with Cons.prems have "k < length ps" "ex_lat (ps ! k) \<noteq> None" "ex_lon (ps ! k) \<noteq> None"
      by simp_all
    from Cons.IH [OF this, of "Suc i" "export_step rt i p st"] Suc
    show ?thesis by simp
  qed
qed



lemma export_step_valid:
  "\<forall>q\<in>set (snd st). ex_lat q \<noteq> None \<and> ex_lon q \<noteq> None \<Longrightarrow>
   \<forall>q\<in>set (snd (export_step rt i p st)). ex_lat q \<noteq> None \<and> ex_lon q \<noteq> None"
  using export_step_cases [of rt i p st] by auto

lemma export_loop_valid:
  "\<forall>q\<in>set (snd st). ex_lat q \<noteq> None \<and> ex_lon q \<noteq> None \<Longrightarrow>
   \<forall>q\<in>set (snd (export_loop rt i ps st)). ex_lat q \<noteq> None \<and> ex_lon q \<noteq> None"
proof (induction ps arbitrary: i st)
  case Nil
  then show ?case by simp
next
  case (Cons p ps)
  have "\<forall>q\<in>set (snd (export_step rt i p st)). ex_lat q \<noteq> None \<and> ex_lon q \<noteq> None"
    using Cons.prems by (rule export_step_valid)
  then have "\<forall>q\<in>set (snd (export_loop rt (Suc i) ps (export_step rt i p st))).
      ex_lat q \<noteq> None \<and> ex_lon q \<noteq> None"
    by (rule Cons.IH)
  then show ?case by simp
qed

lemma route_coords_total:
  "\<forall>q\<in>set vp. ex_lat q \<noteq> None \<and> ex_lon q \<noteq> None \<Longrightarrow> route_coords rt vp \<noteq> None"
  by (induction vp) auto






lemma kml_lines_SomeD:
  assumes "kml_lines rt points connect = Some (kml, vp)"
  shows \<open>\<exists>route. kml =
           fst (export_loop rt 0 points
                 (styles_loop (set_iter rt (used_icons_loop points [])) [''<?xml version="1.0" encoding="UTF-8"?>'',
         ''<kml xmlns="http://www.opengis.net/kml/2.2">'',
         ''<Document><name>Marcadores MGRS - '' @ now_stamp rt @ ''</name>'',
         ''<description>Exportado do Task Force MGRS Mapper v2.0</description>''] @ [''<Style id="routeStyle">'',
         ''<LineStyle><color>ff0000ff</color><width>4</width></LineStyle>'',
         ''</Style>'',
         ''<Folder><name>Pontos</name>''], []))
           @ ''</Folder>'' # route @ [''</Document></kml>'']
         \<and> (\<forall>l\<in>set route. take 2 l \<noteq> ''<S'')\<close>
proof -
  obtain k v where st: \<open>export_loop rt 0 points
      (styles_loop (set_iter rt (used_icons_loop points [])) [''<?xml version="1.0" encoding="UTF-8"?>'',
         ''<kml xmlns="http://www.opengis.net/kml/2.2">'',
         ''<Document><name>Marcadores MGRS - '' @ now_stamp rt @ ''</name>'',
         ''<description>Exportado do Task Force MGRS Mapper v2.0</description>''] @ [''<Style id="routeStyle">'',
         ''<LineStyle><color>ff0000ff</color><width>4</width></LineStyle>'',
         ''</Style>'',
         ''<Folder><name>Pontos</name>''], []) = (k, v)\<close>
    by (cases \<open>export_loop rt 0 points
      (styles_loop (set_iter rt (used_icons_loop points [])) [''<?xml version="1.0" encoding="UTF-8"?>'',
         ''<kml xmlns="http://www.opengis.net/kml/2.2">'',
         ''<Document><name>Marcadores MGRS - '' @ now_stamp rt @ ''</name>'',
         ''<description>Exportado do Task Force MGRS Mapper v2.0</description>''] @ [''<Style id="routeStyle">'',
         ''<LineStyle><color>ff0000ff</color><width>4</width></LineStyle>'',
         ''</Style>'',
         ''<Folder><name>Pontos</name>''], [])\<close>)
  show ?thesis
  proof (cases "connect \<and> 2 \<le> length v")
    case False
    with assms st have "kml = k @ [''</Folder>'', ''</Document></kml>'']"
      by (auto simp: kml_lines_def Let_def)
    then show ?thesis unfolding st by (intro exI [of _ "[]"]) simp
  next
    case True
    with assms st obtain cs where "route_coords rt v = Some cs"
      by (cases "route_coords rt v") (auto simp: kml_lines_def Let_def)
    with True assms st have \<open>kml = k @ ''</Folder>'' #
       [''<Folder><name>Rota</name>'',
        ''<Placemark><name>Rota T'' @ [CHR 0xE1] @ ''tica</name>''
                       @ ''<description>'' @ route_description rt v @ ''</description>''
                       @ ''<styleUrl>#routeStyle</styleUrl>''
                       @ ''<LineString><tessellate>1</tessellate><altitudeMode>clampToGround</altitudeMode>''
                       @ ''<coordinates>'' @ join '' '' cs @ ''</coordinates></LineString></Placemark>'',
        ''</Folder>''] @ [''</Document></kml>'']\<close>
      by (auto simp: kml_lines_def Let_def)
    then show ?thesis unfolding st
      by (intro exI [of _ \<open>[''<Folder><name>Rota</name>'',
        ''<Placemark><name>Rota T'' @ [CHR 0xE1] @ ''tica</name>''
                       @ ''<description>'' @ route_description rt v @ ''</description>''
                       @ ''<styleUrl>#routeStyle</styleUrl>''
                       @ ''<LineString><tessellate>1</tessellate><altitudeMode>clampToGround</altitudeMode>''
                       @ ''<coordinates>'' @ join '' '' cs @ ''</coordinates></LineString></Placemark>'',
        ''</Folder>'']\<close>]) simp
  qed
qed

lemma kml_lines_total: "\<exists>kml vp. kml_lines rt points connect = Some (kml, vp)"
proof -
  obtain k v where st: \<open>export_loop rt 0 points
      (styles_loop (set_iter rt (used_icons_loop points [])) [''<?xml version="1.0" encoding="UTF-8"?>'',
         ''<kml xmlns="http://www.opengis.net/kml/2.2">'',
         ''<Document><name>Marcadores MGRS - '' @ now_stamp rt @ ''</name>'',
         ''<description>Exportado do Task Force MGRS Mapper v2.0</description>''] @ [''<Style id="routeStyle">'',
         ''<LineStyle><color>ff0000ff</color><width>4</width></LineStyle>'',
         ''</Style>'',
         ''<Folder><name>Pontos</name>''], []) = (k, v)\<close>
    by (cases \<open>export_loop rt 0 points
      (styles_loop (set_iter rt (used_icons_loop points [])) [''<?xml version="1.0" encoding="UTF-8"?>'',
         ''<kml xmlns="http://www.opengis.net/kml/2.2">'',
         ''<Document><name>Marcadores MGRS - '' @ now_stamp rt @ ''</name>'',
         ''<description>Exportado do Task Force MGRS Mapper v2.0</description>''] @ [''<Style id="routeStyle">'',
         ''<LineStyle><color>ff0000ff</color><width>4</width></LineStyle>'',
         ''</Style>'',
         ''<Folder><name>Pontos</name>''], [])\<close>)
  have \<open>\<forall>q\<in>set (snd (export_loop rt 0 points
      (styles_loop (set_iter rt (used_icons_loop points [])) [''<?xml version="1.0" encoding="UTF-8"?>'',
         ''<kml xmlns="http://www.opengis.net/kml/2.2">'',
         ''<Document><name>Marcadores MGRS - '' @ now_stamp rt @ ''</name>'',
         ''<description>Exportado do Task Force MGRS Mapper v2.0</description>''] @ [''<Style id="routeStyle">'',
         ''<LineStyle><color>ff0000ff</color><width>4</width></LineStyle>'',
         ''</Style>'',
         ''<Folder><name>Pontos</name>''], []))).
      ex_lat q \<noteq> None \<and> ex_lon q \<noteq> None\<close>
    by (rule export_loop_valid) simp
  then have "route_coords rt v \<noteq> None" unfolding st by (simp add: route_coords_total)
  then obtain cs where "route_coords rt v = Some cs" by auto
  with st show ?thesis by (simp add: kml_lines_def Let_def)
qed



lemma join_contains:
  "l \<in> set xs \<Longrightarrow> \<exists>pre post. join sep xs = pre @ l @ post"
proof (induction sep xs rule: join.induct)
  case (1 sep)
  then show ?case by simp
next
  case (2 sep x)
  then have "join sep [x] = [] @ l @ []" by simp
  then show ?case by blast
next
  case (3 sep x y ys)
  show ?case
  proof (cases "l = x")
    case True
    then have "join sep (x # y # ys) = [] @ l @ (sep @ join sep (y # ys))" by simp
    then show ?thesis by blast
  next
    case False
    with 3 obtain pre post where "join sep (y # ys) = pre @ l @ post" by auto
    then have "join sep (x # y # ys) = (x @ sep @ pre) @ l @ post" by simp
    then show ?thesis by blast
  qed
qed

lemma export_kml_Inr:
  assumes "points \<noteq> []" "kml_lines rt points connect = Some (kml, vp)"
  shows "export_kml rt points connect = Inr \<lparr>body = join [CHR 0x0A] kml,
                content_type = ''application/vnd.google-earth.kml+xml'',
                content_disposition =
                  ''attachment; filename=marcadores_mgrs_'' @ now_stamp rt @ ''.kml''\<rparr>"
  using assms by (simp add: export_kml_def)










text \<open>
  Claim C9: for every point that is exported, the line of its marker carries, between the
  tags of the name, the name of the point (or the default name) in which \<open>&\<close>, \<open><\<close> and \<open>>\<close> are
  replaced by their entity forms; that text has no raw occurrence of the three characters,
  and the line is part of the document that the export returns.
\<close>

theorem exported_name_escaped:
  assumes "i < length points" "ex_lat (points ! i) \<noteq> None" "ex_lon (points ! i) \<noteq> None"
  shows "(\<exists>r before after. export_kml rt points connect = Inr r
            \<and> body r = before @ ''<Placemark><name>'' @ marker_name i (points ! i) @ ''</name>''
                         @ after)
       \<and> marker_name i (points ! i)
           = concat (map entity_form
                       (get_or (ex_name (points ! i)) (''Ponto '' @ str_nat (i + 1))))
       \<and> no_raw_markup (marker_name i (points ! i))"
proof -
  obtain kml vp where k: "kml_lines rt points connect = Some (kml, vp)"
    using kml_lines_total by blast
  from kml_lines_SomeD [OF k] obtain route st where
    kml: "kml = fst (export_loop rt 0 points st) @ ''</Folder>'' # route @ [''</Document></kml>'']"
    by blast
  from export_loop_has_marker [OF assms, of 0 rt st] obtain rest where
    "''<Placemark><name>'' @ marker_name i (points ! i) @ ''</name>'' @ rest
       \<in> set (fst (export_loop rt 0 points st))"
    by auto
  then have "''<Placemark><name>'' @ marker_name i (points ! i) @ ''</name>'' @ rest \<in> set kml"
    unfolding kml by simp
  from join_contains [OF this, of "[CHR 0x0A]"] obtain pre post where
    "join [CHR 0x0A] kml
       = pre @ (''<Placemark><name>'' @ marker_name i (points ! i) @ ''</name>'' @ rest) @ post"
    by blast
  then have j: "join [CHR 0x0A] kml
       = pre @ ''<Placemark><name>'' @ marker_name i (points ! i) @ ''</name>'' @ (rest @ post)"
    by simp
  have "points \<noteq> []" using assms(1) by auto
  from export_kml_Inr [OF this k]
  have "\<exists>r before after. export_kml rt points connect = Inr r
            \<and> body r = before @ ''<Placemark><name>'' @ marker_name i (points ! i) @ ''</name>''
                         @ after"
    using j by (intro exI [of _ "\<lparr>body = join [CHR 0x0A] kml,
                content_type = ''application/vnd.google-earth.kml+xml'',
                content_disposition =
                  ''attachment; filename=marcadores_mgrs_'' @ now_stamp rt @ ''.kml''\<rparr>"]
                exI [of _ pre] exI [of _ "rest @ post"]) simp
  with marker_name_escaped [of i "points ! i"] show ?thesis by blast
qed

theorem exported_name_escaped_witness:
  \<open>(0::nat) < length [\<lparr>ex_name = Some ''a<b&c'', ex_mgrs = None, ex_category = None, ex_iconType = None,
          ex_color = None, ex_lat = Some 1, ex_lon = Some 2\<rparr>]
   \<and> ex_lat ([\<lparr>ex_name = Some ''a<b&c'', ex_mgrs = None, ex_category = None, ex_iconType = None,
          ex_color = None, ex_lat = Some 1, ex_lon = Some 2\<rparr>] ! 0) \<noteq> None
   \<and> ex_lon ([\<lparr>ex_name = Some ''a<b&c'', ex_mgrs = None, ex_category = None, ex_iconType = None,
          ex_color = None, ex_lat = Some 1, ex_lon = Some 2\<rparr>] ! 0) \<noteq> None
   \<and> marker_name 0 ([\<lparr>ex_name = Some ''a<b&c'', ex_mgrs = None, ex_category = None, ex_iconType = None,
          ex_color = None, ex_lat = Some 1, ex_lon = Some 2\<rparr>] ! 0) = ''a&lt;b&amp;c''
   \<and> no_raw_markup (marker_name 0 ([\<lparr>ex_name = Some ''a<b&c'', ex_mgrs = None, ex_category = None, ex_iconType = None,
          ex_color = None, ex_lat = Some 1, ex_lon = Some 2\<rparr>] ! 0))
   \<and> (\<exists>r before after. export_kml \<lparr>now_stamp = ''20260101_120000'', now_marker = str_nat, now_route = ''now'',
         fmt_6f = str_nat \<circ> nat \<circ> floor, fmt_str = str_nat \<circ> nat \<circ> floor, set_iter = id\<rparr> [\<lparr>ex_name = Some ''a<b&c'', ex_mgrs = None, ex_category = None, ex_iconType = None,
          ex_color = None, ex_lat = Some 1, ex_lon = Some 2\<rparr>] False = Inr r
         \<and> body r = before @ ''<Placemark><name>'' @ marker_name 0 ([\<lparr>ex_name = Some ''a<b&c'', ex_mgrs = None, ex_category = None, ex_iconType = None,
          ex_color = None, ex_lat = Some 1, ex_lon = Some 2\<rparr>] ! 0) @ ''</name>''
                      @ after)\<close>
proof -
  let ?rt = \<open>\<lparr>now_stamp = ''20260101_120000'', now_marker = str_nat, now_route = ''now'',
         fmt_6f = str_nat \<circ> nat \<circ> floor, fmt_str = str_nat \<circ> nat \<circ> floor, set_iter = id\<rparr>\<close>
  let ?P = \<open>[\<lparr>ex_name = Some ''a<b&c'', ex_mgrs = None, ex_category = None, ex_iconType = None,
          ex_color = None, ex_lat = Some 1, ex_lon = Some 2\<rparr>]\<close>
  have h: "(0::nat) < length ?P" "ex_lat (?P ! 0) \<noteq> None" "ex_lon (?P ! 0) \<noteq> None"
    by simp_all
  have n: "marker_name 0 (?P ! 0) = ''a&lt;b&amp;c''" by code_simp
  from exported_name_escaped [OF h, of ?rt False] h n
  show ?thesis by blast
qed

end
